theory Spec2Isabelle
  imports Main
begin

section \<open>JavaScript strings and values\<close>

text \<open>
  A JavaScript string is modelled as a \<open>string\<close>, one \<open>char\<close> per code unit in the
  range 0..255.  The helpers below are the string methods and the regular expressions
  that the services use, each written as the function the expression computes.
\<close>

text \<open>White space as \<^verbatim>\<open>\s\<close> and \<^verbatim>\<open>String.prototype.trim\<close> read it
  (tab, line feed, vertical tab, form feed, carriage return, space, no-break space).\<close>

definition is_ws :: "char \<Rightarrow> bool" where
  "is_ws c = (c = CHR 0x09 \<or> c = CHR 0x0A \<or> c = CHR 0x0B \<or> c = CHR 0x0C \<or> c = CHR 0x0D
              \<or> c = CHR 0x20 \<or> c = CHR 0xA0)"

definition trim :: "string \<Rightarrow> string" where
  "trim s = rev (dropWhile is_ws (rev (dropWhile is_ws s)))"

definition is_upper :: "char \<Rightarrow> bool" where
  "is_upper c = (65 \<le> (of_char c :: nat) \<and> (of_char c :: nat) \<le> 90)"

definition is_lower :: "char \<Rightarrow> bool" where
  "is_lower c = (97 \<le> (of_char c :: nat) \<and> (of_char c :: nat) \<le> 122)"

definition is_letter :: "char \<Rightarrow> bool" where
  "is_letter c = (is_upper c \<or> is_lower c)"

definition lower_ascii :: "char \<Rightarrow> char" where
  "lower_ascii c = (if is_upper c then char_of ((of_char c :: nat) + 32) else c)"

definition starts_with :: "string \<Rightarrow> string \<Rightarrow> bool" where
  "starts_with s p = (take (length p) s = p)"

text \<open>The same test under the \<^verbatim>\<open>i\<close> flag (the patterns are ASCII).\<close>

definition starts_with_ci :: "string \<Rightarrow> string \<Rightarrow> bool" where
  "starts_with_ci s p = (map lower_ascii (take (length p) s) = map lower_ascii p)"


text \<open>
  A regular expression with the \<^verbatim>\<open>g\<close> flag is run from left to right: where it
  matches, the match is taken and the scan goes on after it; where it does not, the scan
  moves one character on.  A matcher gives the length of the match at the head of its
  argument (none of the expressions here matches the empty string).
\<close>

fun match_from :: "(string \<Rightarrow> nat option) \<Rightarrow> nat \<Rightarrow> string \<Rightarrow> string list" where
  "match_from m k [] = []"
| "match_from m (Suc k) (c # cs) = match_from m k cs"
| "match_from m 0 (c # cs) =
     (case m (c # cs) of
        Some n \<Rightarrow> take n (c # cs) # match_from m (n - 1) cs
      | None \<Rightarrow> match_from m 0 cs)"

definition match_all :: "(string \<Rightarrow> nat option) \<Rightarrow> string \<Rightarrow> string list" where
  "match_all m s = match_from m 0 s"

fun replace_from :: "(string \<Rightarrow> nat option) \<Rightarrow> string \<Rightarrow> nat \<Rightarrow> string \<Rightarrow> string" where
  "replace_from m r k [] = []"
| "replace_from m r (Suc k) (c # cs) = replace_from m r k cs"
| "replace_from m r 0 (c # cs) =
     (case m (c # cs) of
        Some n \<Rightarrow> r @ replace_from m r (n - 1) cs
      | None \<Rightarrow> c # replace_from m r 0 cs)"

definition replace_all :: "(string \<Rightarrow> nat option) \<Rightarrow> string \<Rightarrow> string \<Rightarrow> string" where
  "replace_all m r s = replace_from m r 0 s"

text \<open>\<^verbatim>\<open>/\{\{[^}]+\}\}/\<close>: two opening braces, one or more characters other than
  a closing brace, two closing braces.  The class cannot give a character back, so the
  run it takes is the longest one.\<close>

definition re_mustache :: "string \<Rightarrow> nat option" where
  "re_mustache s =
     (if starts_with s ''{{'' then
        (let inner = takeWhile (\<lambda>c. c \<noteq> CHR ''}'') (drop 2 s);
             rest = dropWhile (\<lambda>c. c \<noteq> CHR ''}'') (drop 2 s)
         in if inner \<noteq> [] \<and> starts_with rest ''}}'' then Some (length inner + 4) else None)
      else None)"

text \<open>\<^verbatim>\<open>.replace(/[{}]/g, '')\<close>.\<close>

definition strip_braces :: "string \<Rightarrow> string" where
  "strip_braces s = filter (\<lambda>c. c \<noteq> CHR ''{'' \<and> c \<noteq> CHR ''}'') s"

text \<open>\<^verbatim>\<open>.replace(/^KEYWORD\s+/, '')\<close>: the keyword at the start of the string and
  the white space after it (at least one character) are removed.\<close>

definition strip_keyword :: "string \<Rightarrow> string \<Rightarrow> string" where
  "strip_keyword kw s =
     (let rest = drop (length kw) s
      in if starts_with s kw \<and> rest \<noteq> [] \<and> is_ws (hd rest) then dropWhile is_ws rest else s)"

text \<open>\<^verbatim>\<open>.split(sep)[0]\<close> for a separator of one character.\<close>

definition split_first :: "char \<Rightarrow> string \<Rightarrow> string" where
  "split_first sep s = takeWhile (\<lambda>c. c \<noteq> sep) s"

text \<open>The values a binding or a JSON document holds.\<close>

datatype json =
    JNull
  | JBool bool
  | JNum int
  | JStr string
  | JArr "json list"
  | JObj "(string \<times> json) list"

text \<open>A thrown value: an \<^verbatim>\<open>Error\<close> with its message, or a value that is not an
  \<^verbatim>\<open>Error\<close> and has no \<^verbatim>\<open>message\<close>.\<close>

datatype thrown = Error string | NonError

text \<open>Truthiness of a value that may be \<^verbatim>\<open>undefined\<close> (\<open>None\<close>).\<close>

fun truthy :: "json option \<Rightarrow> bool" where
  "truthy None = False"
| "truthy (Some JNull) = False"
| "truthy (Some (JBool b)) = b"
| "truthy (Some (JNum n)) = (n \<noteq> 0)"
| "truthy (Some (JStr s)) = (s \<noteq> [])"
| "truthy (Some (JArr xs)) = True"
| "truthy (Some (JObj kvs)) = True"

definition truthy_str :: "string option \<Rightarrow> bool" where
  "truthy_str s = (case s of None \<Rightarrow> False | Some t \<Rightarrow> t \<noteq> [])"

section \<open>The template engine (services/templateEngine.ts)\<close>

subsection \<open>Variable extraction\<close>

text \<open>
  \<^verbatim>\<open>extractTemplateVariables(subject, body)\<close>: every match of the mustache expression
  in \<^verbatim>\<open>subject + ' ' + body\<close> is stripped of its braces, of a leading
  \<^verbatim>\<open>#each\<close>, \<^verbatim>\<open>if\<close> and \<^verbatim>\<open>unless\<close> (in this order), trimmed and cut at
  its first dot; a name that is empty, starts with a slash or is \<^verbatim>\<open>this\<close> is
  dropped.  The names go into a \<^verbatim>\<open>Set\<close>, which keeps the first insertion of each.
\<close>

definition root_name :: "string \<Rightarrow> string" where
  "root_name m =
     split_first (CHR ''.'')
       (trim (strip_keyword ''unless'' (strip_keyword ''if'' (strip_keyword ''#each''
          (strip_braces m)))))"

definition keeps_name :: "string \<Rightarrow> bool" where
  "keeps_name v = (v \<noteq> [] \<and> \<not> starts_with v ''/'' \<and> v \<noteq> ''this'')"

definition set_add :: "string list \<Rightarrow> string \<Rightarrow> string list" where
  "set_add acc v = (if v \<in> set acc then acc else acc @ [v])"

definition extractTemplateVariables :: "string \<Rightarrow> string \<Rightarrow> string list" where
  "extractTemplateVariables subject body =
     foldl (\<lambda>acc m. let v = root_name m in if keeps_name v then set_add acc v else acc) []
       (match_all re_mustache (subject @ '' '' @ body))"

subsection \<open>The libraries and the clock\<close>

text \<open>
  Handlebars, marked, DOMPurify with JSDOM, and \<^verbatim>\<open>Date\<close> are not part of the
  repository.  They are parameters of the model: a function for each call the engine
  makes.  \<open>Handlebars_run t vars\<close> is \<^verbatim>\<open>Handlebars.compile(t)(vars)\<close>, which may
  throw; \<open>purify_sanitize None\<close> is \<^verbatim>\<open>purify.sanitize(html)\<close> and
  \<open>purify_sanitize (Some cfg)\<close> the call with a configuration.
\<close>

record purify_config =
  ALLOWED_TAGS :: "string list"
  ALLOWED_ATTR :: "string list"
  ALLOWED_URI_REGEXP :: "string \<Rightarrow> bool"

record engine =
  Handlebars_run :: "string \<Rightarrow> (string \<Rightarrow> json option) \<Rightarrow> thrown + string"
  Handlebars_compile :: "string \<Rightarrow> thrown option"
  marked_parse :: "string \<Rightarrow> string"
  purify_sanitize :: "purify_config option \<Rightarrow> string \<Rightarrow> string"
  toISOString :: "int \<Rightarrow> string"
  getFullYear :: "int \<Rightarrow> int"
  month_long :: "int \<Rightarrow> string"
  toLocaleDateString :: "int \<Rightarrow> string"
  clock :: int

record note_row =
  n_id :: string
  n_user_id :: string
  n_title :: string
  n_content :: string
  n_created_at :: int
  n_updated_at :: int

record email_template =
  et_id :: string
  et_user_id :: string
  et_name :: string
  et_subject :: string
  et_body :: string
  et_variables :: "string list"
  et_version :: int
  et_is_active :: bool
  et_created_at :: int
  et_updated_at :: int

subsection \<open>Bindings built from a note\<close>

definition markdownToHtml :: "engine \<Rightarrow> string \<Rightarrow> string" where
  "markdownToHtml e markdown = purify_sanitize e None (marked_parse e markdown)"

text \<open>The object literal of \<^verbatim>\<open>extractNoteVariables\<close>: ten own properties.\<close>

definition note_variables :: "engine \<Rightarrow> note_row \<Rightarrow> string \<Rightarrow> json option" where
  "note_variables e n =
     [ ''note_title'' \<mapsto> JStr (n_title n),
       ''note_content'' \<mapsto> JStr (n_content n),
       ''note_content_html'' \<mapsto> JStr (markdownToHtml e (n_content n)),
       ''note_created_at'' \<mapsto> JStr (toISOString e (n_created_at n)),
       ''note_updated_at'' \<mapsto> JStr (toISOString e (n_updated_at n)),
       ''today'' \<mapsto> JStr (split_first (CHR ''T'') (toISOString e (clock e))),
       ''now'' \<mapsto> JStr (toISOString e (clock e)),
       ''current_year'' \<mapsto> JNum (getFullYear e (clock e)),
       ''current_month'' \<mapsto> JStr (month_long e (clock e)),
       ''current_date'' \<mapsto> JStr (toLocaleDateString e (clock e)) ]"

text \<open>
  \<^verbatim>\<open>variables[name]\<close> on an object literal also finds what the object inherits from
  \<^verbatim>\<open>Object.prototype\<close>; each of those properties is a function or an object, so the
  test \<^verbatim>\<open>!variables[name]\<close> is false for them.
\<close>

definition Object_prototype_keys :: "string list" where
  "Object_prototype_keys =
     [''constructor'', ''__defineGetter__'', ''__defineSetter__'', ''hasOwnProperty'',
      ''__lookupGetter__'', ''__lookupSetter__'', ''isPrototypeOf'', ''propertyIsEnumerable'',
      ''toString'', ''valueOf'', ''__proto__'', ''toLocaleString'']"

definition reads_truthy :: "(string \<Rightarrow> json option) \<Rightarrow> string \<Rightarrow> bool" where
  "reads_truthy vars name = (name \<in> set Object_prototype_keys \<or> truthy (vars name))"

text \<open>\<^verbatim>\<open>match.replace(/[{}]/g, '').trim()\<close>.\<close>

definition custom_name :: "string \<Rightarrow> string" where
  "custom_name m = trim (strip_braces m)"

definition placeholder :: "string \<Rightarrow> string" where
  "placeholder name = ''['' @ name @ '']''"

definition add_placeholder ::
  "(string \<Rightarrow> json option) \<Rightarrow> string \<Rightarrow> (string \<Rightarrow> json option)" where
  "add_placeholder vars m =
     (let variableName = custom_name m
      in if \<not> reads_truthy vars variableName
         then vars(variableName \<mapsto> JStr (placeholder variableName))
         else vars)"

text \<open>The expression is matched against the content of the note, not against the
  template.\<close>

definition extractNoteVariables :: "engine \<Rightarrow> note_row \<Rightarrow> string \<Rightarrow> json option" where
  "extractNoteVariables e n =
     foldl add_placeholder (note_variables e n) (match_all re_mustache (n_content n))"

subsection \<open>The sanitizer's configuration\<close>

text \<open>
  \<^verbatim>\<open>/^(?:(?:(?:f|ht)tps?|mailto|tel|callto|cid|xmpp):|[^a-z]|[a-z+.\-]+(?:[^a-z+.\-:]|$))/i\<close>
  has three alternatives, all anchored at the start of the value:
  a scheme of the list followed by a colon;
  a first character that is not a letter;
  a run of letters, plus, dot and minus that is followed by the end of the value or by a
  character that is neither of the run nor a colon (only the longest run can be).
\<close>

definition uri_schemes :: "string list" where
  "uri_schemes = [''ftp'', ''ftps'', ''http'', ''https'', ''mailto'', ''tel'', ''callto'',
                  ''cid'', ''xmpp'']"

definition is_scheme_char :: "char \<Rightarrow> bool" where
  "is_scheme_char c = (is_letter c \<or> c = CHR ''+'' \<or> c = CHR ''.'' \<or> c = CHR ''-'')"

definition uri_listed_scheme :: "string \<Rightarrow> bool" where
  "uri_listed_scheme v = list_ex (\<lambda>sch. starts_with_ci v (sch @ '':'')) uri_schemes"

definition uri_not_letter_first :: "string \<Rightarrow> bool" where
  "uri_not_letter_first v = (case v of [] \<Rightarrow> False | c # cs \<Rightarrow> \<not> is_letter c)"

definition uri_no_scheme :: "string \<Rightarrow> bool" where
  "uri_no_scheme v =
     (takeWhile is_scheme_char v \<noteq> [] \<and>
      (case dropWhile is_scheme_char v of [] \<Rightarrow> True | c # cs \<Rightarrow> c \<noteq> CHR '':''))"

definition uri_regexp :: "string \<Rightarrow> bool" where
  "uri_regexp v = (uri_listed_scheme v \<or> uri_not_letter_first v \<or> uri_no_scheme v)"

definition sanitize_config :: purify_config where
  "sanitize_config =
     \<lparr> ALLOWED_TAGS =
         [''p'', ''br'', ''strong'', ''em'', ''u'', ''h1'', ''h2'', ''h3'', ''h4'', ''h5'', ''h6'',
          ''ul'', ''ol'', ''li'', ''blockquote'', ''a'', ''img'', ''table'', ''thead'', ''tbody'',
          ''tr'', ''td'', ''th'', ''div'', ''span'', ''pre'', ''code''],
       ALLOWED_ATTR = [''href'', ''src'', ''alt'', ''title'', ''style''],
       ALLOWED_URI_REGEXP = uri_regexp \<rparr>"

definition sanitizeHtml :: "engine \<Rightarrow> string \<Rightarrow> string" where
  "sanitizeHtml e html = purify_sanitize e (Some sanitize_config) html"

subsection \<open>HTML to plain text\<close>

text \<open>The expressions of \<^verbatim>\<open>htmlToText\<close>, in the order they are applied.\<close>

text \<open>\<^verbatim>\<open>/<br\s*\/?>/gi\<close>.\<close>

definition re_br :: "string \<Rightarrow> nat option" where
  "re_br s =
     (if starts_with_ci s ''<br'' then
        (let ws = takeWhile is_ws (drop 3 s)
         in case dropWhile is_ws (drop 3 s) of
              CHR ''/'' # CHR ''>'' # rest \<Rightarrow> Some (length ws + 5)
            | CHR ''>'' # rest \<Rightarrow> Some (length ws + 4)
            | _ \<Rightarrow> None)
      else None)"

text \<open>A literal under the \<^verbatim>\<open>i\<close> flag (\<^verbatim>\<open>/<\/p>/gi\<close>, \<^verbatim>\<open>/<\/div>/gi\<close>) and a
  literal as it is written (the entities).\<close>

definition re_lit_ci :: "string \<Rightarrow> string \<Rightarrow> nat option" where
  "re_lit_ci p s = (if starts_with_ci s p then Some (length p) else None)"

definition re_lit :: "string \<Rightarrow> string \<Rightarrow> nat option" where
  "re_lit p s = (if starts_with s p then Some (length p) else None)"

text \<open>\<^verbatim>\<open>/<\/h[1-6]>/gi\<close>.\<close>

definition re_close_heading :: "string \<Rightarrow> nat option" where
  "re_close_heading s =
     (if starts_with_ci s ''</h'' then
        (case drop 3 s of
           d # CHR ''>'' # rest \<Rightarrow> if d \<in> set ''123456'' then Some 5 else None
         | _ \<Rightarrow> None)
      else None)"

text \<open>\<^verbatim>\<open>/<[^>]*>/g\<close>.\<close>

definition re_tag :: "string \<Rightarrow> nat option" where
  "re_tag s =
     (case s of
        CHR ''<'' # r \<Rightarrow>
          (case dropWhile (\<lambda>c. c \<noteq> CHR ''>'') r of
             [] \<Rightarrow> None
           | g # rest \<Rightarrow> Some (length (takeWhile (\<lambda>c. c \<noteq> CHR ''>'') r) + 2))
      | _ \<Rightarrow> None)"

text \<open>\<^verbatim>\<open>/\n\s*\n\s*\n/g\<close>: a line feed and the white space after it up to its last line
  feed, when that white space holds two line feeds or more (the first star gives back
  down to the line feed before the last, the second ends at the last).\<close>

definition re_blank_lines :: "string \<Rightarrow> nat option" where
  "re_blank_lines s =
     (case s of
        CHR 0x0A # r \<Rightarrow>
          (let run = takeWhile is_ws r;
               upto_last = rev (dropWhile (\<lambda>c. c \<noteq> CHR 0x0A) (rev run))
           in if 2 \<le> length (filter (\<lambda>c. c = CHR 0x0A) run)
              then Some (length upto_last + 1) else None)
      | _ \<Rightarrow> None)"

definition htmlToText :: "string \<Rightarrow> string" where
  "htmlToText html =
     trim
      (replace_all re_blank_lines [CHR 0x0A, CHR 0x0A]
      (replace_all (re_lit ''&#39;'') [CHR 0x27]
      (replace_all (re_lit ''&quot;'') [CHR 0x22]
      (replace_all (re_lit ''&gt;'') ''>''
      (replace_all (re_lit ''&lt;'') ''<''
      (replace_all (re_lit ''&amp;'') ''&''
      (replace_all (re_lit ''&nbsp;'') '' ''
      (replace_all re_tag []
      (replace_all re_close_heading [CHR 0x0A, CHR 0x0A]
      (replace_all (re_lit_ci ''</div>'') [CHR 0x0A]
      (replace_all (re_lit_ci ''</p>'') [CHR 0x0A, CHR 0x0A]
      (replace_all re_br [CHR 0x0A] html))))))))))))"

subsection \<open>Rendering and validation\<close>

record rendered =
  r_subject :: string
  r_body_html :: string
  r_body_text :: string
  r_variables_used :: "string \<Rightarrow> json option"

text \<open>\<^verbatim>\<open>renderTemplate(template, note)\<close>.  An exception of Handlebars leaves the
  function; the subject is rendered first.\<close>

definition renderTemplate :: "engine \<Rightarrow> email_template \<Rightarrow> note_row \<Rightarrow> thrown + rendered" where
  "renderTemplate e template n =
     (let variables = extractNoteVariables e n
      in case Handlebars_run e (et_subject template) variables of
           Inl ex \<Rightarrow> Inl ex
         | Inr subject \<Rightarrow>
             (case Handlebars_run e (et_body template) variables of
                Inl ex \<Rightarrow> Inl ex
              | Inr bodyHtml \<Rightarrow>
                  (let sanitizedHtml = sanitizeHtml e bodyHtml;
                       bodyText = htmlToText sanitizedHtml
                   in Inr \<lparr> r_subject = subject, r_body_html = sanitizedHtml,
                            r_body_text = bodyText, r_variables_used = variables \<rparr>)))"

definition error_text :: "thrown \<Rightarrow> string" where
  "error_text ex = (case ex of Error m \<Rightarrow> m | NonError \<Rightarrow> ''Unknown error'')"

text \<open>\<^verbatim>\<open>validateTemplate(subject, body)\<close>: the list of error messages; the template is
  valid when the list is empty.\<close>

definition validateTemplate :: "engine \<Rightarrow> string \<Rightarrow> string \<Rightarrow> string list" where
  "validateTemplate e subject body =
     (case Handlebars_compile e subject of
        None \<Rightarrow> []
      | Some ex \<Rightarrow> [''Subject template error: '' @ error_text ex])
     @
     (case Handlebars_compile e body of
        None \<Rightarrow> []
      | Some ex \<Rightarrow> [''Body template error: '' @ error_text ex])"

section \<open>The database (database/schema.sql, types)\<close>

text \<open>
  A table is the list of its rows.  A timestamp is a number of milliseconds and an
  \<^verbatim>\<open>INTEGER\<close> column a number without bound, both of type \<open>int\<close>; a column that
  may be \<^verbatim>\<open>NULL\<close> (or a property that may be \<^verbatim>\<open>undefined\<close>) is an
  \<open>option\<close>.  The length limits of the \<^verbatim>\<open>VARCHAR\<close> columns are not modelled.
\<close>

record user_row =
  u_id :: string
  u_email :: string
  u_name :: string
  gmail_refresh_token :: "string option"
  gmail_access_token :: "string option"
  gmail_token_expires_at :: "int option"
  nylas_access_token :: "string option"
  nylas_account_id :: "string option"
  has_nylas_auth :: "bool option"

record email_template_version =
  tv_template_id :: string
  tv_version :: int
  tv_subject :: string
  tv_body :: string
  tv_variables :: "string list"
  tv_created_at :: int

datatype send_status = pending | sent | failed

record sent_email =
  se_id :: string
  se_user_id :: string
  se_note_id :: string
  se_template_id :: string
  se_template_version :: int
  se_idempotency_key :: string
  se_recipients :: "string list"
  se_subject :: string
  se_body_html :: string
  se_body_text :: "string option"
  se_status :: send_status
  se_error_message :: "string option"
  se_provider_message_id :: "string option"
  se_sent_at :: "int option"
  se_created_at :: int
  se_updated_at :: int

record database =
  users :: "user_row list"
  note_rows :: "note_row list"
  email_templates :: "email_template list"
  email_template_versions :: "email_template_version list"
  sent_emails :: "sent_email list"

section \<open>The provider adapters\<close>

text \<open>What both adapters return: \<^verbatim>\<open>{ messageId, success, error? }\<close>.\<close>

record send_result =
  messageId :: string
  success :: bool
  error :: "string option"

subsection \<open>The network, as parameters\<close>

record mail_options =
  mo_from :: string
  mo_to :: string
  mo_subject :: string
  mo_html :: string
  mo_text :: string

record transport_auth =
  ta_user :: string
  ta_refreshToken :: "string option"
  ta_accessToken :: "string option"

record oauth_credentials =
  cred_access_token :: "string option"
  cred_expiry_date :: "int option"

record message_data =
  md_subject :: string
  md_body :: string
  md_to :: "(string \<times> string) list"
  md_text :: "string option"

record http_request =
  url :: string
  http_method :: string
  headers :: "(string \<times> string) list"
  payload :: message_data

record http_response =
  ok :: bool
  status :: nat
  response_text :: "thrown + string"

text \<open>
  \<open>nylas_fetch\<close> is \<^verbatim>\<open>fetch\<close> (it may reject, and so may reading the body of its
  response), \<open>JSON_parse\<close> is \<^verbatim>\<open>JSON.parse\<close> (\<open>None\<close> when it throws),
  \<open>String_of\<close> is the conversion of a value to a string, \<open>oauth_refresh\<close> is the
  OAuth2 client's \<^verbatim>\<open>refreshAccessToken\<close> for a refresh token, \<open>sendMail\<close> is the
  nodemailer transport.  \<open>uuidv4\<close> and \<open>gen_random_uuid\<close> are the identifiers drawn
  during one request.
\<close>

record services =
  template_engine :: engine
  NYLAS_API_KEY :: string
  nylas_fetch :: "http_request \<Rightarrow> thrown + http_response"
  JSON_parse :: "string \<Rightarrow> json option"
  String_of :: "json \<Rightarrow> string"
  oauth_refresh :: "string \<Rightarrow> thrown + oauth_credentials"
  sendMail :: "transport_auth \<Rightarrow> mail_options \<Rightarrow> thrown + string"
  uuidv4 :: string
  gen_random_uuid :: string

definition current_time :: "services \<Rightarrow> int" where
  "current_time sv = clock (template_engine sv)"

text \<open>\<^verbatim>\<open>xs.join(sep)\<close>.\<close>

fun join :: "string \<Rightarrow> string list \<Rightarrow> string" where
  "join sep [] = []"
| "join sep [x] = x"
| "join sep (x # y # ys) = x @ sep @ join sep (y # ys)"

text \<open>A number in a template literal.\<close>

fun show_nat :: "nat \<Rightarrow> string" where
  "show_nat n =
     (if n < 10 then [char_of (48 + n)]
      else show_nat (n div 10) @ [char_of (48 + n mod 10)])"

subsection \<open>Gmail (services/emailService.ts)\<close>

text \<open>
  \<^verbatim>\<open>refreshAccessToken(user)\<close>: asks for new credentials and stores the access token
  and its expiry in the user's row.
\<close>

definition refreshAccessToken ::
  "services \<Rightarrow> user_row \<Rightarrow> database \<Rightarrow> database \<times> (thrown + string option)" where
  "refreshAccessToken sv u d =
     (case gmail_refresh_token u of
        None \<Rightarrow> (d, Inl (Error ''No refresh token available''))
      | Some tok \<Rightarrow>
          if tok = [] then (d, Inl (Error ''No refresh token available''))
          else
            (case oauth_refresh sv tok of
               Inl ex \<Rightarrow> (d, Inl ex)
             | Inr credentials \<Rightarrow>
                 (let secs = (case cred_expiry_date credentials of
                                None \<Rightarrow> 3600
                              | Some x \<Rightarrow> if x = 0 then 3600 else x);
                      expiresAt = current_time sv + 1000 * secs
                  in (d\<lparr> users :=
                          map (\<lambda>r. if u_id r = u_id u
                                    then r\<lparr> gmail_access_token := cred_access_token credentials,
                                            gmail_token_expires_at := Some expiresAt \<rparr>
                                    else r) (users d) \<rparr>,
                      Inr (cred_access_token credentials)))))"

text \<open>\<^verbatim>\<open>getValidAccessToken(user)\<close>: the stored token while it is valid for more than
  five minutes, a refreshed one otherwise.\<close>

definition getValidAccessToken ::
  "services \<Rightarrow> user_row \<Rightarrow> database \<Rightarrow> database \<times> (thrown + string option)" where
  "getValidAccessToken sv u d =
     (case (gmail_access_token u, gmail_token_expires_at u) of
        (Some tok, Some expiresAt) \<Rightarrow>
          if tok \<noteq> [] \<and> expiresAt - current_time sv > 5 * 60 * 1000
          then (d, Inr (Some tok))
          else refreshAccessToken sv u d
      | _ \<Rightarrow> refreshAccessToken sv u d)"

definition createTransporter ::
  "services \<Rightarrow> user_row \<Rightarrow> database \<Rightarrow> database \<times> (thrown + transport_auth)" where
  "createTransporter sv u d =
     (case getValidAccessToken sv u d of
        (d', Inl ex) \<Rightarrow> (d', Inl ex)
      | (d', Inr accessToken) \<Rightarrow>
          (d', Inr \<lparr> ta_user = u_email u, ta_refreshToken = gmail_refresh_token u,
                     ta_accessToken = accessToken \<rparr>))"

definition gmail_mail_options ::
  "user_row \<Rightarrow> string list \<Rightarrow> string \<Rightarrow> string \<Rightarrow> string option \<Rightarrow> mail_options" where
  "gmail_mail_options u recipients subject htmlBody textBody =
     \<lparr> mo_from = u_email u,
       mo_to = join '', '' recipients,
       mo_subject = subject,
       mo_html = htmlBody,
       mo_text = (case textBody of
                    None \<Rightarrow> htmlToText htmlBody
                  | Some t \<Rightarrow> if t \<noteq> [] then t else htmlToText htmlBody) \<rparr>"

text \<open>The \<^verbatim>\<open>try\<close> block of \<^verbatim>\<open>EmailService.sendEmail\<close>: \<open>Inl\<close> is what it throws.\<close>

definition gmail_try ::
  "services \<Rightarrow> user_row \<Rightarrow> string list \<Rightarrow> string \<Rightarrow> string \<Rightarrow> string option \<Rightarrow> database
     \<Rightarrow> database \<times> (thrown + send_result)" where
  "gmail_try sv u recipients subject htmlBody textBody d =
     (if \<not> truthy_str (gmail_refresh_token u)
      then (d, Inl (Error ''User has not authorized Gmail access''))
      else
        (case createTransporter sv u d of
           (d', Inl ex) \<Rightarrow> (d', Inl ex)
         | (d', Inr transporter) \<Rightarrow>
             (case sendMail sv transporter
                     (gmail_mail_options u recipients subject htmlBody textBody) of
                Inl ex \<Rightarrow> (d', Inl ex)
              | Inr mid \<Rightarrow> (d', Inr \<lparr> messageId = mid, success = True, error = None \<rparr>))))"

text \<open>The whole method, with its \<^verbatim>\<open>catch\<close> block.  The result is again a sum, so
  that what the method lets through would be an \<open>Inl\<close>.\<close>

definition gmail_sendEmail ::
  "services \<Rightarrow> user_row \<Rightarrow> string list \<Rightarrow> string \<Rightarrow> string \<Rightarrow> string option \<Rightarrow> database
     \<Rightarrow> database \<times> (thrown + send_result)" where
  "gmail_sendEmail sv u recipients subject htmlBody textBody d =
     (case gmail_try sv u recipients subject htmlBody textBody d of
        (d', Inr r) \<Rightarrow> (d', Inr r)
      | (d', Inl ex) \<Rightarrow>
          (d', Inr \<lparr> messageId = [], success = False, error = Some (error_text ex) \<rparr>))"

text \<open>\<^verbatim>\<open>updateSentEmailStatus(sentEmailId, status, providerMessageId?, errorMessage?)\<close>.\<close>

definition updateSentEmailStatus ::
  "services \<Rightarrow> string \<Rightarrow> send_status \<Rightarrow> string option \<Rightarrow> string option \<Rightarrow> database
     \<Rightarrow> database" where
  "updateSentEmailStatus sv sentEmailId st providerMessageId errorMessage d =
     d\<lparr> sent_emails :=
          map (\<lambda>r. if se_id r = sentEmailId
                    then r\<lparr> se_status := st,
                            se_provider_message_id := providerMessageId,
                            se_error_message := errorMessage,
                            se_sent_at := (if st = sent then Some (current_time sv) else None),
                            se_updated_at := current_time sv \<rparr>
                    else r) (sent_emails d) \<rparr>"

subsection \<open>Nylas (services/nylasEmailService.ts)\<close>

text \<open>Reading a property: of \<^verbatim>\<open>null\<close> it throws a \<^verbatim>\<open>TypeError\<close>, of an object
  it gives the member (the last one of that name), of any other value of a JSON document
  \<^verbatim>\<open>undefined\<close> for the names read here.\<close>

definition null_property :: "string \<Rightarrow> thrown" where
  "null_property k = Error (''Cannot read properties of null (reading '' @ [CHR 0x27] @ k @ [CHR 0x27] @ '')'')"

definition get_property :: "json \<Rightarrow> string \<Rightarrow> thrown + json option" where
  "get_property v k =
     (case v of
        JNull \<Rightarrow> Inl (null_property k)
      | JObj kvs \<Rightarrow> Inr (map_of (rev kvs) k)
      | _ \<Rightarrow> Inr None)"

text \<open>\<^verbatim>\<open>v.outer?.inner\<close> for a value \<open>v\<close> that is not \<^verbatim>\<open>null\<close>.\<close>

definition optional_chain :: "json \<Rightarrow> string \<Rightarrow> string \<Rightarrow> thrown + json option" where
  "optional_chain v outer inner =
     (case get_property v outer of
        Inl ex \<Rightarrow> Inl ex
      | Inr None \<Rightarrow> Inr None
      | Inr (Some JNull) \<Rightarrow> Inr None
      | Inr (Some w) \<Rightarrow> get_property w inner)"

text \<open>\<^verbatim>\<open>v.outer?.inner || v.inner || fallback\<close>, converted to a string.\<close>

definition js_String :: "services \<Rightarrow> json \<Rightarrow> string" where
  "js_String sv v = (case v of JStr s \<Rightarrow> s | _ \<Rightarrow> String_of sv v)"

definition pick :: "json option \<Rightarrow> json option" where
  "pick a = (if truthy a then a else None)"

definition first_truthy ::
  "services \<Rightarrow> json \<Rightarrow> string \<Rightarrow> string \<Rightarrow> string \<Rightarrow> thrown + string" where
  "first_truthy sv v outer inner fallback =
     (case optional_chain v outer inner of
        Inl ex \<Rightarrow> Inl ex
      | Inr a \<Rightarrow>
          (case pick a of
             Some x \<Rightarrow> Inr (js_String sv x)
           | None \<Rightarrow>
               (case get_property v inner of
                  Inl ex \<Rightarrow> Inl ex
                | Inr b \<Rightarrow>
                    (case pick b of
                       Some y \<Rightarrow> Inr (js_String sv y)
                     | None \<Rightarrow> Inr fallback))))"

text \<open>The message of the error thrown for a response that is not \<^verbatim>\<open>ok\<close>: taken from
  the JSON body; the first 200 characters of the body when reading it as JSON throws.\<close>

definition nylas_error_message :: "services \<Rightarrow> nat \<Rightarrow> string \<Rightarrow> string" where
  "nylas_error_message sv code responseText =
     (case JSON_parse sv responseText of
        None \<Rightarrow> take 200 responseText
      | Some errorData \<Rightarrow>
          (case first_truthy sv errorData ''error'' ''message'' (''HTTP '' @ show_nat code) of
             Inl ex \<Rightarrow> take 200 responseText
           | Inr m \<Rightarrow> m))"

definition nylas_message_data ::
  "string list \<Rightarrow> string \<Rightarrow> string \<Rightarrow> string \<Rightarrow> message_data" where
  "nylas_message_data recipients subject bodyHtml bodyText =
     \<lparr> md_subject = subject,
       md_body = bodyHtml,
       md_to = map (\<lambda>email. (split_first (CHR ''@'') email, email)) recipients,
       md_text = (if bodyText \<noteq> [] then Some bodyText else None) \<rparr>"

text \<open>The endpoint is a template literal whose only interpolation is a constant; the
  \<^verbatim>\<open>grantId\<close> parameter of the method is not read.\<close>

definition nylas_endpoint :: "string \<Rightarrow> string" where
  "nylas_endpoint grantId =
     ''https://api.us.nylas.com/v3/grants/'' @ ''dcbd389c-d486-4d70-8c82-022dc738806e''
       @ ''/messages/send''"

definition nylas_request ::
  "services \<Rightarrow> string \<Rightarrow> string list \<Rightarrow> string \<Rightarrow> string \<Rightarrow> string \<Rightarrow> http_request" where
  "nylas_request sv grantId recipients subject bodyHtml bodyText =
     \<lparr> url = nylas_endpoint grantId,
       http_method = ''POST'',
       headers = [(''Accept'', ''application/json''),
                  (''Authorization'', ''Bearer '' @ NYLAS_API_KEY sv),
                  (''Content-Type'', ''application/json'')],
       payload = nylas_message_data recipients subject bodyHtml bodyText \<rparr>"

text \<open>The \<^verbatim>\<open>try\<close> block of \<^verbatim>\<open>NylasEmailService.sendEmail\<close>.\<close>

definition nylas_try ::
  "services \<Rightarrow> string \<Rightarrow> string list \<Rightarrow> string \<Rightarrow> string \<Rightarrow> string
     \<Rightarrow> thrown + send_result" where
  "nylas_try sv grantId recipients subject bodyHtml bodyText =
     (case nylas_fetch sv (nylas_request sv grantId recipients subject bodyHtml bodyText) of
        Inl ex \<Rightarrow> Inl ex
      | Inr response \<Rightarrow>
          (case response_text response of
             Inl ex \<Rightarrow> Inl ex
           | Inr responseText \<Rightarrow>
               if \<not> ok response
               then Inl (Error (nylas_error_message sv (status response) responseText))
               else
                 (case JSON_parse sv responseText of
                    None \<Rightarrow> Inl (Error ''Invalid JSON response from Nylas API'')
                  | Some result \<Rightarrow>
                      (case first_truthy sv result ''data'' ''id'' [] of
                         Inl ex \<Rightarrow> Inl ex
                       | Inr mid \<Rightarrow>
                           Inr \<lparr> messageId = mid, success = True, error = None \<rparr>))))"

text \<open>The \<^verbatim>\<open>catch\<close> block: \<^verbatim>\<open>error.message || "Failed to send email"\<close>.\<close>

definition nylas_catch_message :: "thrown \<Rightarrow> string" where
  "nylas_catch_message ex =
     (case ex of
        Error m \<Rightarrow> if m \<noteq> [] then m else ''Failed to send email''
      | NonError \<Rightarrow> ''Failed to send email'')"

definition nylas_sendEmail ::
  "services \<Rightarrow> string \<Rightarrow> string list \<Rightarrow> string \<Rightarrow> string \<Rightarrow> string
     \<Rightarrow> thrown + send_result" where
  "nylas_sendEmail sv grantId recipients subject bodyHtml bodyText =
     (case nylas_try sv grantId recipients subject bodyHtml bodyText of
        Inr r \<Rightarrow> Inr r
      | Inl ex \<Rightarrow>
          Inr \<lparr> messageId = [], success = False, error = Some (nylas_catch_message ex) \<rparr>)"

section \<open>Templates and their versions (routes/templates.ts, schema.sql)\<close>

text \<open>What a route answers: the HTTP status and the JSON body.\<close>

datatype payload =
    Fail string
  | FailDetails string "string option"
  | FailValidation string "string list"
  | Idempotent string send_status "int option"
  | SentOk string string
  | TemplateData email_template
  | Deleted

datatype reply = Reply nat payload

text \<open>
  The trigger function \<^verbatim>\<open>create_template_version()\<close>, fired before every update of a
  row of \<^verbatim>\<open>email_templates\<close>: the rows it inserts into
  \<^verbatim>\<open>email_template_versions\<close> and the row it returns.
\<close>

definition snapshot_of :: "email_template \<Rightarrow> email_template_version" where
  "snapshot_of OLD =
     \<lparr> tv_template_id = et_id OLD, tv_version = et_version OLD, tv_subject = et_subject OLD,
       tv_body = et_body OLD, tv_variables = et_variables OLD,
       tv_created_at = et_updated_at OLD \<rparr>"

definition create_template_version ::
  "email_template \<Rightarrow> email_template \<Rightarrow> email_template_version list \<times> email_template" where
  "create_template_version OLD NEW =
     (if et_subject OLD \<noteq> et_subject NEW \<or> et_body OLD \<noteq> et_body NEW
         \<or> et_variables OLD \<noteq> et_variables NEW
      then ([snapshot_of OLD], NEW\<lparr> et_version := et_version OLD + 1 \<rparr>)
      else ([], NEW))"

text \<open>Both triggers of the table, in the order of their names: the version trigger, then
  \<^verbatim>\<open>update_updated_at_column()\<close>.\<close>

definition fire_update ::
  "services \<Rightarrow> (email_template \<Rightarrow> email_template) \<Rightarrow> email_template
     \<Rightarrow> email_template_version list \<times> email_template" where
  "fire_update sv setf OLD =
     (case create_template_version OLD (setf OLD) of
        (snaps, NEW) \<Rightarrow> (snaps, NEW\<lparr> et_updated_at := current_time sv \<rparr>))"

text \<open>
  \<^verbatim>\<open>UPDATE email_templates SET ... WHERE ... RETURNING *\<close>: every row the condition
  selects is replaced by what the triggers return for it; the snapshots are appended; the
  statement fails, leaving the tables as they were, when
  \<^verbatim>\<open>UNIQUE(template_id, version)\<close> would not hold.
\<close>

definition version_key :: "email_template_version \<Rightarrow> string \<times> int" where
  "version_key v = (tv_template_id v, tv_version v)"

definition update_email_templates ::
  "services \<Rightarrow> (email_template \<Rightarrow> bool) \<Rightarrow> (email_template \<Rightarrow> email_template) \<Rightarrow> database
     \<Rightarrow> thrown + database \<times> email_template list" where
  "update_email_templates sv wh setf d =
     (let hits = filter wh (email_templates d);
          versions' = email_template_versions d
                        @ concat (map (\<lambda>r. fst (fire_update sv setf r)) hits)
      in if \<not> distinct (map version_key versions')
         then Inl (Error ''duplicate key value violates unique constraint'')
         else Inr (d\<lparr> email_templates :=
                         map (\<lambda>r. if wh r then snd (fire_update sv setf r) else r)
                           (email_templates d),
                       email_template_versions := versions' \<rparr>,
                   map (\<lambda>r. snd (fire_update sv setf r)) hits))"

text \<open>\<^verbatim>\<open>POST /\<close>: create a template.  An absent property and the empty string both fail
  the first test.\<close>

definition POST_template ::
  "services \<Rightarrow> user_row \<Rightarrow> string \<Rightarrow> string \<Rightarrow> string \<Rightarrow> database \<Rightarrow> database \<times> reply" where
  "POST_template sv u name subject body d =
     (if name = [] \<or> subject = [] \<or> body = []
      then (d, Reply 400 (Fail ''Name, subject, and body are required''))
      else if validateTemplate (template_engine sv) subject body \<noteq> []
      then (d, Reply 400 (FailValidation ''Template validation failed''
                            (validateTemplate (template_engine sv) subject body)))
      else
        (let row = \<lparr> et_id = gen_random_uuid sv, et_user_id = u_id u, et_name = name,
                     et_subject = subject, et_body = body,
                     et_variables = extractTemplateVariables subject body,
                     et_version = 1, et_is_active = True,
                     et_created_at = current_time sv, et_updated_at = current_time sv \<rparr>
         in if et_id row \<in> set (map et_id (email_templates d))
            then (d, Reply 500 (Fail ''Failed to create template''))
            else (d\<lparr> email_templates := email_templates d @ [row] \<rparr>,
                  Reply 201 (TemplateData row))))"


text \<open>\<^verbatim>\<open>DELETE /:id\<close>: the soft delete.\<close>

definition DELETE_template ::
  "services \<Rightarrow> user_row \<Rightarrow> string \<Rightarrow> database \<Rightarrow> database \<times> reply" where
  "DELETE_template sv u tid d =
     (case update_email_templates sv
             (\<lambda>r. et_id r = tid \<and> et_user_id r = u_id u \<and> et_is_active r)
             (\<lambda>r. r\<lparr> et_is_active := False, et_updated_at := current_time sv \<rparr>) d of
        Inl ex \<Rightarrow> (d, Reply 500 (Fail ''Failed to delete template''))
      | Inr (d', []) \<Rightarrow> (d', Reply 404 (Fail ''Template not found''))
      | Inr (d', row # others) \<Rightarrow> (d', Reply 200 Deleted))"

text \<open>
  What the routes keep true of the two tables: identifiers are unique, the variables of
  a row are the ones extracted from its subject and body, the snapshots have distinct
  keys, every snapshot of a template has a version below the live one, and every
  snapshot belongs to a template (the foreign key).
\<close>

definition templates_ok :: "database \<Rightarrow> bool" where
  "templates_ok d =
     (distinct (map et_id (email_templates d)) \<and>
      list_all (\<lambda>t. et_variables t = extractTemplateVariables (et_subject t) (et_body t))
        (email_templates d) \<and>
      distinct (map version_key (email_template_versions d)) \<and>
      list_all (\<lambda>t. list_all (\<lambda>v. tv_template_id v \<noteq> et_id t \<or> tv_version v < et_version t)
                        (email_template_versions d))
        (email_templates d) \<and>
      list_all (\<lambda>v. tv_template_id v \<in> set (map et_id (email_templates d)))
        (email_template_versions d))"

section \<open>Sending and retrying (the e-mail routes)\<close>

text \<open>
  Besides the database, a request can render a template and call a provider adapter.
  Both are recorded, in the order they happen, so that a theorem can say that a request
  did neither.
\<close>

datatype provider = Nylas | Gmail

datatype effect =
    Render email_template note_row
  | ProviderSend provider "string list" string string "string option"

record world =
  db :: database
  effects :: "effect list"

fun is_send :: "effect \<Rightarrow> bool" where
  "is_send (ProviderSend p rs s h t) = True"
| "is_send (Render t n) = False"

definition provider_sends :: "world \<Rightarrow> nat" where
  "provider_sends w = length (filter is_send (effects w))"

record send_request =
  req_note_id :: "string option"
  req_template_id :: "string option"
  req_recipients :: "string list option"
  req_idempotency_key :: "string option"

text \<open>\<^verbatim>\<open>!note_id || !template_id || !recipients || recipients.length === 0\<close>.\<close>

definition request_incomplete :: "send_request \<Rightarrow> bool" where
  "request_incomplete rq =
     (\<not> truthy_str (req_note_id rq) \<or> \<not> truthy_str (req_template_id rq) \<or>
      (case req_recipients rq of None \<Rightarrow> True | Some rs \<Rightarrow> length rs = 0))"

text \<open>The three fields once the test has passed (then none of them is absent).\<close>

definition rq_note_id :: "send_request \<Rightarrow> string" where
  "rq_note_id rq = (case req_note_id rq of Some x \<Rightarrow> x | None \<Rightarrow> [])"

definition rq_template_id :: "send_request \<Rightarrow> string" where
  "rq_template_id rq = (case req_template_id rq of Some x \<Rightarrow> x | None \<Rightarrow> [])"

definition rq_recipients :: "send_request \<Rightarrow> string list" where
  "rq_recipients rq = (case req_recipients rq of Some x \<Rightarrow> x | None \<Rightarrow> [])"

text \<open>\<^verbatim>\<open>idempotency_key || uuidv4()\<close>.\<close>

definition finalIdempotencyKey :: "services \<Rightarrow> send_request \<Rightarrow> string" where
  "finalIdempotencyKey sv rq =
     (case req_idempotency_key rq of
        None \<Rightarrow> uuidv4 sv
      | Some k \<Rightarrow> if k \<noteq> [] then k else uuidv4 sv)"

text \<open>
  \<^verbatim>\<open>INSERT INTO sent_emails ... RETURNING *\<close>: the statement fails when the identifier
  or the idempotency key is already in the table.
\<close>

definition insert_sent_email :: "sent_email \<Rightarrow> database \<Rightarrow> thrown + database" where
  "insert_sent_email row d =
     (if se_id row \<in> set (map se_id (sent_emails d))
         \<or> se_idempotency_key row \<in> set (map se_idempotency_key (sent_emails d))
      then Inl (Error ''duplicate key value violates unique constraint'')
      else Inr (d\<lparr> sent_emails := sent_emails d @ [row] \<rparr>))"

definition new_sent_email ::
  "services \<Rightarrow> user_row \<Rightarrow> string \<Rightarrow> string \<Rightarrow> string list \<Rightarrow> email_template \<Rightarrow> rendered
     \<Rightarrow> string \<Rightarrow> sent_email" where
  "new_sent_email sv u note_id template_id recipients template r key =
     \<lparr> se_id = gen_random_uuid sv, se_user_id = u_id u, se_note_id = note_id,
       se_template_id = template_id, se_template_version = et_version template,
       se_idempotency_key = key, se_recipients = recipients,
       se_subject = r_subject r, se_body_html = r_body_html r,
       se_body_text = Some (r_body_text r), se_status = pending,
       se_error_message = None, se_provider_message_id = None, se_sent_at = None,
       se_created_at = current_time sv, se_updated_at = current_time sv \<rparr>"

text \<open>
  The choice of the adapter in \<^verbatim>\<open>POST /send\<close>, made from the user's row as the
  database holds it: Nylas when the row has the flag and a grant, Gmail when it has an
  access or a refresh token, an exception otherwise.  The Gmail adapter is given the user
  of the request.
\<close>

definition no_service_message :: string where
  "no_service_message = ''No email service configured. Please authorize Nylas or Gmail.''"

definition select_and_send ::
  "services \<Rightarrow> user_row \<Rightarrow> string list \<Rightarrow> rendered \<Rightarrow> world \<Rightarrow> world \<times> (thrown + send_result)" where
  "select_and_send sv u recipients r w =
     (case find (\<lambda>x. u_id x = u_id u) (users (db w)) of
        None \<Rightarrow>
          (w, Inl (Error (''Cannot read properties of undefined (reading ''
                         @ [CHR 0x27] @ ''has_nylas_auth'' @ [CHR 0x27] @ '')'')))
      | Some userData \<Rightarrow>
          if has_nylas_auth userData = Some True \<and> truthy_str (nylas_access_token userData)
          then
            (w\<lparr> effects := effects w @
                   [ProviderSend Nylas recipients (r_subject r) (r_body_html r)
                      (Some (r_body_text r))] \<rparr>,
             nylas_sendEmail sv (case nylas_access_token userData of Some g \<Rightarrow> g | None \<Rightarrow> [])
               recipients (r_subject r) (r_body_html r) (r_body_text r))
          else if truthy_str (gmail_access_token userData)
                  \<or> truthy_str (gmail_refresh_token userData)
          then
            (case gmail_sendEmail sv u recipients (r_subject r) (r_body_html r)
                    (Some (r_body_text r)) (db w) of
               (d', res) \<Rightarrow>
                 (w\<lparr> db := d',
                      effects := effects w @
                        [ProviderSend Gmail recipients (r_subject r) (r_body_html r)
                           (Some (r_body_text r))] \<rparr>,
                  res))
          else (w, Inl (Error no_service_message)))"

text \<open>
  What both routes do with the outcome: a successful result marks the record sent, a
  failed result marks it failed and is answered with its details, an exception marks it
  failed and is thrown again, to be answered by the handler's outer \<^verbatim>\<open>catch\<close> with
  the route's own message.
\<close>

definition finalize ::
  "services \<Rightarrow> string \<Rightarrow> string \<Rightarrow> thrown + send_result \<Rightarrow> world \<Rightarrow> world \<times> reply" where
  "finalize sv outer_message sentEmailId outcome w =
     (case outcome of
        Inr sendResult \<Rightarrow>
          if success sendResult
          then (w\<lparr> db := updateSentEmailStatus sv sentEmailId sent
                            (Some (messageId sendResult)) None (db w) \<rparr>,
                Reply 200 (SentOk sentEmailId (messageId sendResult)))
          else (w\<lparr> db := updateSentEmailStatus sv sentEmailId failed None
                            (error sendResult) (db w) \<rparr>,
                Reply 500 (FailDetails ''Failed to send email'' (error sendResult)))
      | Inl sendError \<Rightarrow>
          (w\<lparr> db := updateSentEmailStatus sv sentEmailId failed None
                       (Some (error_text sendError)) (db w) \<rparr>,
           Reply 500 (Fail outer_message)))"

text \<open>\<^verbatim>\<open>POST /send\<close>, for the authenticated user \<open>u\<close>.\<close>

definition POST_send :: "services \<Rightarrow> user_row \<Rightarrow> send_request \<Rightarrow> world \<Rightarrow> world \<times> reply" where
  "POST_send sv u rq w =
     (if request_incomplete rq
      then (w, Reply 400 (Fail ''Note ID, template ID, and recipients are required''))
      else
        (let note_id = rq_note_id rq;
             template_id = rq_template_id rq;
             recipients = rq_recipients rq;
             key = finalIdempotencyKey sv rq
         in case filter (\<lambda>r. se_idempotency_key r = key) (sent_emails (db w)) of
              existing # others \<Rightarrow>
                (w, Reply 200 (Idempotent (se_id existing) (se_status existing)
                                 (se_sent_at existing)))
            | [] \<Rightarrow>
                (case filter (\<lambda>t. et_id t = template_id \<and> et_user_id t = u_id u
                                   \<and> et_is_active t) (email_templates (db w)) of
                   [] \<Rightarrow> (w, Reply 404 (Fail ''Template not found''))
                 | template # ts \<Rightarrow>
                     (case filter (\<lambda>n. n_id n = note_id \<and> n_user_id n = u_id u)
                             (note_rows (db w)) of
                        [] \<Rightarrow> (w, Reply 404 (Fail ''Note not found''))
                      | n # ns \<Rightarrow>
                          (let w1 = w\<lparr> effects := effects w @ [Render template n] \<rparr>
                           in case renderTemplate (template_engine sv) template n of
                                Inl ex \<Rightarrow> (w1, Reply 500 (Fail ''Failed to send email''))
                              | Inr r \<Rightarrow>
                                  (let row = new_sent_email sv u note_id template_id
                                               recipients template r key
                                   in case insert_sent_email row (db w1) of
                                        Inl ex \<Rightarrow>
                                          (w1, Reply 500 (Fail ''Failed to send email''))
                                      | Inr d2 \<Rightarrow>
                                          (case select_and_send sv u recipients r
                                                  (w1\<lparr> db := d2 \<rparr>) of
                                             (w3, outcome) \<Rightarrow>
                                               finalize sv ''Failed to send email''
                                                 (se_id row) outcome w3)))))))"

text \<open>\<^verbatim>\<open>POST /sent/:id/retry\<close>: the record must be the user's and failed; the stored
  subject and bodies are given to the Gmail adapter.\<close>

definition POST_retry :: "services \<Rightarrow> user_row \<Rightarrow> string \<Rightarrow> world \<Rightarrow> world \<times> reply" where
  "POST_retry sv u sid w =
     (case filter (\<lambda>r. se_id r = sid \<and> se_user_id r = u_id u \<and> se_status r = failed)
             (sent_emails (db w)) of
        [] \<Rightarrow> (w, Reply 404 (Fail ''Failed email not found''))
      | sentEmail # others \<Rightarrow>
          (case gmail_sendEmail sv u (se_recipients sentEmail) (se_subject sentEmail)
                  (se_body_html sentEmail) (se_body_text sentEmail) (db w) of
             (d', outcome) \<Rightarrow>
               finalize sv ''Failed to retry email'' (se_id sentEmail) outcome
                 (w\<lparr> db := d',
                      effects := effects w @
                        [ProviderSend Gmail (se_recipients sentEmail) (se_subject sentEmail)
                           (se_body_html sentEmail) (se_body_text sentEmail)] \<rparr>)))"

section \<open>Example data\<close>

text \<open>
  In the examples the libraries are replaced by stand-ins that agree with them on the
  inputs the examples use: a template whose only expressions are plain
  \<^verbatim>\<open>{{name}}\<close> tokens, each bound to a string or not bound at all (Handlebars
  writes the escaped string, and nothing for a name without a binding); one line of
  Markdown without markup (marked wraps it in a paragraph); HTML that the sanitizer
  leaves as it is.  The stand-in for Handlebars throws on every other template.
\<close>

definition is_digit :: "char \<Rightarrow> bool" where
  "is_digit c = (48 \<le> (of_char c :: nat) \<and> (of_char c :: nat) \<le> 57)"

definition simple_token :: "string \<Rightarrow> bool" where
  "simple_token name =
     (name \<noteq> [] \<and> list_all (\<lambda>c. is_letter c \<or> is_digit c \<or> c = CHR ''_'') name)"

definition escape_char :: "char \<Rightarrow> string" where
  "escape_char c =
     (if c = CHR ''&'' then ''&amp;''
      else if c = CHR ''<'' then ''&lt;''
      else if c = CHR ''>'' then ''&gt;''
      else if c = CHR 0x22 then ''&quot;''
      else if c = CHR 0x27 then ''&#x27;''
      else if c = CHR 0x60 then ''&#x60;''
      else if c = CHR ''='' then ''&#x3D;''
      else [c])"

definition outside_stand_in :: thrown where
  "outside_stand_in = Error ''template outside the stand-in''"

definition prepend :: "string \<Rightarrow> thrown + string \<Rightarrow> thrown + string" where
  "prepend s r = (case r of Inl ex \<Rightarrow> Inl ex | Inr t \<Rightarrow> Inr (s @ t))"

fun interpolate_from :: "(string \<Rightarrow> json option) \<Rightarrow> nat \<Rightarrow> string \<Rightarrow> thrown + string" where
  "interpolate_from vars k [] = Inr []"
| "interpolate_from vars (Suc k) (c # cs) = interpolate_from vars k cs"
| "interpolate_from vars 0 (c # cs) =
     (case re_mustache (c # cs) of
        None \<Rightarrow> prepend [c] (interpolate_from vars 0 cs)
      | Some n \<Rightarrow>
          (let name = trim (take (n - 4) (drop 2 (c # cs)))
           in if \<not> simple_token name then Inl outside_stand_in
              else
                (case vars name of
                   None \<Rightarrow> interpolate_from vars (n - 1) cs
                 | Some (JStr s) \<Rightarrow>
                     prepend (concat (map escape_char s)) (interpolate_from vars (n - 1) cs)
                 | Some other \<Rightarrow> Inl outside_stand_in)))"

definition interpolate :: "string \<Rightarrow> (string \<Rightarrow> json option) \<Rightarrow> thrown + string" where
  "interpolate t vars = interpolate_from vars 0 t"

definition example_engine :: engine where
  "example_engine =
     \<lparr> Handlebars_run = interpolate,
       Handlebars_compile = (\<lambda>t. None),
       marked_parse = (\<lambda>m. ''<p>'' @ m @ ''</p>'' @ [CHR 0x0A]),
       purify_sanitize = (\<lambda>cfg html. html),
       toISOString = (\<lambda>t. ''2024-05-01T10:00:00.000Z''),
       getFullYear = (\<lambda>t. 2024),
       month_long = (\<lambda>t. ''May''),
       toLocaleDateString = (\<lambda>t. ''5/1/2024''),
       clock = 1714557600000 \<rparr>"

definition example_note :: note_row where
  "example_note =
     \<lparr> n_id = ''note-1'', n_user_id = ''user-1'', n_title = ''Trip'',
       n_content = ''Pack the bags'', n_created_at = 1714500000000,
       n_updated_at = 1714500000000 \<rparr>"

definition example_template :: email_template where
  "example_template =
     \<lparr> et_id = ''tpl-1'', et_user_id = ''user-1'', et_name = ''Greeting'',
       et_subject = ''Hi {{unknown_var}}!'', et_body = ''<p>{{unknown_var}}</p>'',
       et_variables = [''unknown_var''], et_version = 1, et_is_active = True,
       et_created_at = 1714400000000, et_updated_at = 1714400000000 \<rparr>"

text \<open>The three strings of a rendering.\<close>

definition rendered_strings :: "thrown + rendered \<Rightarrow> thrown + string \<times> string \<times> string" where
  "rendered_strings res =
     (case res of
        Inl ex \<Rightarrow> Inl ex
      | Inr r \<Rightarrow> Inr (r_subject r, r_body_html r, r_body_text r))"

section \<open>The URI allow-list of the specification\<close>




section \<open>An example store\<close>

definition example_user :: user_row where
  "example_user =
     \<lparr> u_id = ''user-1'', u_email = ''ann@example.com'', u_name = ''Ann'',
       gmail_refresh_token = None, gmail_access_token = None,
       gmail_token_expires_at = None, nylas_access_token = None,
       nylas_account_id = None, has_nylas_auth = None \<rparr>"

definition example_db :: database where
  "example_db =
     \<lparr> users = [example_user], note_rows = [example_note],
       email_templates = [example_template], email_template_versions = [],
       sent_emails = [] \<rparr>"

text \<open>The body of a successful answer of the provider, and what \<^verbatim>\<open>JSON.parse\<close> makes
  of it.\<close>

definition example_response_body :: string where
  "example_response_body =
     ''{'' @ [CHR 0x22] @ ''data'' @ [CHR 0x22] @ '':{'' @ [CHR 0x22] @ ''id'' @ [CHR 0x22]
       @ '':'' @ [CHR 0x22] @ ''msg-1'' @ [CHR 0x22] @ ''}}''"

definition example_services :: services where
  "example_services =
     \<lparr> template_engine = example_engine,
       NYLAS_API_KEY = ''nyk_example'',
       nylas_fetch = (\<lambda>rq. Inr \<lparr> ok = True, status = 200,
                                   response_text = Inr example_response_body \<rparr>),
       JSON_parse = (\<lambda>s. if s = example_response_body
                          then Some (JObj [(''data'', JObj [(''id'', JStr ''msg-1'')])])
                          else None),
       String_of = (\<lambda>v. []),
       oauth_refresh = (\<lambda>tok. Inr \<lparr> cred_access_token = Some ''ya29.fresh'',
                                      cred_expiry_date = Some 3600 \<rparr>),
       sendMail = (\<lambda>auth mo. Inr ''<gmail-1@mail.example.com>''),
       uuidv4 = ''key-generated'',
       gen_random_uuid = ''send-1'' \<rparr>"

section \<open>Example requests\<close>

text \<open>A request of the example user, who has authorized no provider; the same user with
  a Nylas grant only; and a network on which the provider cannot be reached.\<close>

definition example_request :: send_request where
  "example_request =
     \<lparr> req_note_id = Some ''note-1'', req_template_id = Some ''tpl-1'',
       req_recipients = Some [''bob@example.com''], req_idempotency_key = Some ''key-1'' \<rparr>"

definition example_world :: world where
  "example_world = \<lparr> db = example_db, effects = [] \<rparr>"

definition nylas_user :: user_row where
  "nylas_user = example_user\<lparr> nylas_access_token := Some ''grant-1'',
                                has_nylas_auth := Some True \<rparr>"

definition nylas_world :: world where
  "nylas_world = \<lparr> db = example_db\<lparr> users := [nylas_user] \<rparr>, effects = [] \<rparr>"

definition offline_services :: services where
  "offline_services =
     example_services\<lparr> nylas_fetch := (\<lambda>rq. Inl (Error ''fetch failed'')) \<rparr>"

definition second_services :: services where
  "second_services = example_services\<lparr> gen_random_uuid := ''send-2'' \<rparr>"

text \<open>The world after a send of the Nylas user has failed for the network.\<close>

definition failed_world :: world where
  "failed_world = fst (POST_send offline_services nylas_user example_request nylas_world)"

text \<open>The world after the same send has succeeded.\<close>

definition sent_world :: world where
  "sent_world = fst (POST_send example_services nylas_user example_request nylas_world)"

section \<open>Variable extraction\<close>

text \<open>The fold of \<^verbatim>\<open>extractTemplateVariables\<close> keeps the first occurrence of every
  name it admits, in the order of the matches.\<close>

lemma first_occurrences_fold:
  "foldl (\<lambda>acc m. let v = f m in if keep v then set_add acc v else acc) [] ms =
     rev (remdups (rev (filter keep (map f ms))))"
proof (induction ms rule: rev_induct)
  case Nil
  show ?case by simp
next
  case (snoc m ms)
  show ?case
  proof (cases "keep (f m)")
    case True
    with snoc show ?thesis by (simp add: set_add_def Let_def)
  next
    case False
    with snoc show ?thesis by (simp add: Let_def)
  qed
qed

lemma extractTemplateVariables_first_occurrences:
  "extractTemplateVariables subject body =
     rev (remdups (rev (filter keeps_name
       (map root_name (match_all re_mustache (subject @ '' '' @ body))))))"
  unfolding extractTemplateVariables_def
  by (rule first_occurrences_fold [where f = root_name and keep = keeps_name])

lemma extractTemplateVariables_distinct:
  "distinct (extractTemplateVariables subject body)"
  by (simp add: extractTemplateVariables_first_occurrences)

lemma root_name_no_dot: "CHR ''.'' \<notin> set (root_name m)"
proof
  assume "CHR ''.'' \<in> set (root_name m)"
  then have "CHR ''.'' \<noteq> CHR ''.''"
    unfolding root_name_def split_first_def by (rule set_takeWhileD [THEN conjunct2])
  then show False by simp
qed

text \<open>No extracted name is empty, is \<^verbatim>\<open>this\<close>, starts with a slash or holds a dot.\<close>

lemma extractTemplateVariables_roots:
  assumes "v \<in> set (extractTemplateVariables subject body)"
  shows "v \<noteq> [] \<and> v \<noteq> ''this'' \<and> \<not> starts_with v ''/'' \<and> CHR ''.'' \<notin> set v"
proof -
  from assms obtain m where "v = root_name m" and "keeps_name v"
    by (auto simp: extractTemplateVariables_first_occurrences)
  then show ?thesis
    using root_name_no_dot [of m] by (simp add: keeps_name_def)
qed

text \<open>The example of the specification.\<close>

lemma extract_spec_example:
  "extractTemplateVariables ''{{note_title}} {{#each items}}{{this}}{{/each}}'' [] =
     [''note_title'', ''items'']"
  by code_simp

text \<open>
  Claim C8.  Extraction is to return root names with the block helpers
  \<^verbatim>\<open>each\<close>, \<^verbatim>\<open>if\<close> and \<^verbatim>\<open>unless\<close> stripped.  The expression for
  \<^verbatim>\<open>each\<close> is \<^verbatim>\<open>/^#each\s+/\<close>; the ones for the other two are
  \<^verbatim>\<open>/^if\s+/\<close> and \<^verbatim>\<open>/^unless\s+/\<close>, without the hash sign a block opens with.
  So an \<^verbatim>\<open>each\<close> block gives the name it binds, while an \<^verbatim>\<open>if\<close> or an
  \<^verbatim>\<open>unless\<close> block gives the helper together with its argument.
\<close>

theorem extract_if_block_keeps_helper:
  "extractTemplateVariables [] ''{{#if show}}ok{{/if}}'' = [''#if show''] \<and>
   extractTemplateVariables [] ''{{#unless done}}x{{/unless}}'' = [''#unless done''] \<and>
   extractTemplateVariables [] ''{{#each items}}{{this}}{{/each}}'' = [''items'']"
  by code_simp

section \<open>Bindings and placeholders\<close>






text \<open>A token in the content of the note does give the placeholder.\<close>

lemma note_token_gives_placeholder:
  "rendered_strings (renderTemplate example_engine example_template
      (example_note\<lparr> n_content := ''see {{unknown_var}}'' \<rparr>)) =
     Inr (''Hi [unknown_var]!'', ''<p>[unknown_var]</p>'', ''[unknown_var]'')"
  by code_simp



section \<open>The sanitizer's configuration\<close>





lemma lower_literal:
  "map lower_ascii ''ftp'' = ''ftp''" "map lower_ascii ''ftps'' = ''ftps''"
  "map lower_ascii ''http'' = ''http''" "map lower_ascii ''https'' = ''https''"
  "map lower_ascii ''mailto'' = ''mailto''" "map lower_ascii ''tel'' = ''tel''"
  "map lower_ascii ''callto'' = ''callto''" "map lower_ascii ''cid'' = ''cid''"
  "map lower_ascii ''xmpp'' = ''xmpp''"
  by (simp_all add: lower_ascii_def is_upper_def)










section \<open>The provider adapters\<close>











text \<open>Some failures of the transport, and what the adapters return for them.\<close>

lemma nylas_failures:
  "nylas_sendEmail offline_services ''grant-1'' [''bob@example.com''] ''Hi'' ''<p>x</p>'' ''x'' =
     Inr \<lparr> messageId = [], success = False, error = Some ''fetch failed'' \<rparr>"
  "nylas_sendEmail
     (example_services\<lparr> nylas_fetch := (\<lambda>rq. Inr \<lparr> ok = False, status = 502,
                                              response_text = Inr ''Bad Gateway'' \<rparr>) \<rparr>)
     ''grant-1'' [''bob@example.com''] ''Hi'' ''<p>x</p>'' ''x'' =
     Inr \<lparr> messageId = [], success = False, error = Some ''Bad Gateway'' \<rparr>"
  "nylas_sendEmail
     (example_services\<lparr> nylas_fetch := (\<lambda>rq. Inr \<lparr> ok = False, status = 401,
                                              response_text = Inr ''{}'' \<rparr>),
                         JSON_parse := (\<lambda>s. Some (JObj [])) \<rparr>)
     ''grant-1'' [''bob@example.com''] ''Hi'' ''<p>x</p>'' ''x'' =
     Inr \<lparr> messageId = [], success = False, error = Some ''HTTP 401'' \<rparr>"
  "nylas_sendEmail
     (example_services\<lparr> nylas_fetch := (\<lambda>rq. Inr \<lparr> ok = True, status = 200,
                                              response_text = Inr ''<html>'' \<rparr>) \<rparr>)
     ''grant-1'' [''bob@example.com''] ''Hi'' ''<p>x</p>'' ''x'' =
     Inr \<lparr> messageId = [], success = False,
           error = Some ''Invalid JSON response from Nylas API'' \<rparr>"
  "nylas_sendEmail
     (example_services\<lparr> nylas_fetch := (\<lambda>rq. Inr \<lparr> ok = True, status = 200,
                                              response_text = Inl NonError \<rparr>) \<rparr>)
     ''grant-1'' [''bob@example.com''] ''Hi'' ''<p>x</p>'' ''x'' =
     Inr \<lparr> messageId = [], success = False, error = Some ''Failed to send email'' \<rparr>"
  by code_simp+

lemma gmail_failures:
  "snd (gmail_sendEmail example_services example_user [''bob@example.com''] ''Hi'' ''<p>x</p>''
          (Some ''x'') example_db) =
     Inr \<lparr> messageId = [], success = False,
           error = Some ''User has not authorized Gmail access'' \<rparr>"
  "snd (gmail_sendEmail (example_services\<lparr> sendMail := (\<lambda>auth mo. Inl NonError) \<rparr>)
          (example_user\<lparr> gmail_refresh_token := Some ''1//refresh'' \<rparr>)
          [''bob@example.com''] ''Hi'' ''<p>x</p>'' (Some ''x'') example_db) =
     Inr \<lparr> messageId = [], success = False, error = Some ''Unknown error'' \<rparr>"
  "snd (gmail_sendEmail
          (example_services\<lparr> oauth_refresh := (\<lambda>tok. Inl (Error ''invalid_grant'')) \<rparr>)
          (example_user\<lparr> gmail_refresh_token := Some ''1//refresh'' \<rparr>)
          [''bob@example.com''] ''Hi'' ''<p>x</p>'' (Some ''x'') example_db) =
     Inr \<lparr> messageId = [], success = False, error = Some ''invalid_grant'' \<rparr>"
  "snd (gmail_sendEmail example_services
          (example_user\<lparr> gmail_refresh_token := Some ''1//refresh'' \<rparr>)
          [''bob@example.com''] ''Hi'' ''<p>x</p>'' (Some ''x'') example_db) =
     Inr \<lparr> messageId = ''<gmail-1@mail.example.com>'', success = True, error = None \<rparr>"
  by code_simp+


text \<open>
  Claim C10.  Two calls of \<^verbatim>\<open>NylasEmailService.sendEmail\<close> that differ only in the
  grant id send the same request to the same URL, which holds a fixed grant id; so they
  also return the same result.
\<close>

theorem nylas_endpoint_ignores_grant:
  "nylas_request sv g1 rs s h t = nylas_request sv g2 rs s h t \<and>
   url (nylas_request sv g1 rs s h t) =
     ''https://api.us.nylas.com/v3/grants/dcbd389c-d486-4d70-8c82-022dc738806e/messages/send'' \<and>
   nylas_sendEmail sv g1 rs s h t = nylas_sendEmail sv g2 rs s h t"
  by (simp add: nylas_request_def nylas_endpoint_def nylas_sendEmail_def nylas_try_def)

section \<open>Template versions\<close>

lemma filter_unique:
  assumes "distinct (map f xs)" and "x \<in> set xs"
  shows "filter (\<lambda>r. f r = f x \<and> P r) xs = (if P x then [x] else [])"
  using assms
proof (induction xs)
  case Nil
  then show ?case by simp
next
  case (Cons y ys)
  show ?case
  proof (cases "y = x")
    case True
    with Cons.prems have "f x \<notin> f ` set ys" by simp
    then have "filter (\<lambda>r. f r = f x \<and> P r) ys = []"
      by (auto simp: filter_empty_conv) (metis imageI)
    with True show ?thesis by simp
  next
    case False
    with Cons.prems have "x \<in> set ys" and "f y \<noteq> f x" and "distinct (map f ys)"
      by auto
    with Cons.IH show ?thesis by simp
  qed
qed

lemma map_unique:
  assumes "distinct (map f xs)" and "x \<in> set xs"
  shows "map (\<lambda>r. if f r = f x \<and> P r then g r else r) xs =
           map (\<lambda>r. if r = x \<and> P x then g x else r) xs"
proof (rule map_cong [OF refl])
  fix r assume "r \<in> set xs"
  with assms have "f r = f x \<longleftrightarrow> r = x"
    by (meson distinct_map inj_onD)
  then show "(if f r = f x \<and> P r then g r else r) = (if r = x \<and> P x then g x else r)"
    by auto
qed

lemma fire_update_fields:
  "fire_update sv setf OLD = (snaps, NEW) \<Longrightarrow>
     et_id NEW = et_id (setf OLD) \<and> et_subject NEW = et_subject (setf OLD) \<and>
     et_body NEW = et_body (setf OLD) \<and> et_variables NEW = et_variables (setf OLD) \<and>
     et_user_id NEW = et_user_id (setf OLD) \<and> et_is_active NEW = et_is_active (setf OLD) \<and>
     et_name NEW = et_name (setf OLD)"
  by (auto simp: fire_update_def create_template_version_def split: if_splits)


lemma templates_ok_empty:
  "templates_ok \<lparr> users = us, note_rows = ns, email_templates = [],
                  email_template_versions = [], sent_emails = ss \<rparr>"
  by (simp add: templates_ok_def)

text \<open>A created template has version 1, and the tables stay well formed.\<close>

lemma post_template_version_one:
  fixes u :: user_row
  assumes ok: "templates_ok d"
    and ne: "name \<noteq> []" "subject \<noteq> []" "body \<noteq> []"
    and valid: "validateTemplate (template_engine sv) subject body = []"
    and fresh: "gen_random_uuid sv \<notin> set (map et_id (email_templates d))"
  defines "row \<equiv> \<lparr> et_id = gen_random_uuid sv, et_user_id = u_id u, et_name = name,
                     et_subject = subject, et_body = body,
                     et_variables = extractTemplateVariables subject body,
                     et_version = 1, et_is_active = True,
                     et_created_at = current_time sv, et_updated_at = current_time sv \<rparr>"
  shows "POST_template sv u name subject body d =
           (d\<lparr> email_templates := email_templates d @ [row] \<rparr>, Reply 201 (TemplateData row))"
    and "templates_ok (d\<lparr> email_templates := email_templates d @ [row] \<rparr>)"
proof -
  show "POST_template sv u name subject body d =
           (d\<lparr> email_templates := email_templates d @ [row] \<rparr>, Reply 201 (TemplateData row))"
    using ne valid fresh by (simp add: POST_template_def row_def Let_def)
  from ok have fk: "list_all (\<lambda>v. tv_template_id v \<in> set (map et_id (email_templates d)))
                      (email_template_versions d)"
    by (simp add: templates_ok_def)
  with fresh have "list_all (\<lambda>v. tv_template_id v \<noteq> et_id row) (email_template_versions d)"
    unfolding list_all_iff row_def by simp metis
  then have "list_all (\<lambda>v. tv_template_id v \<noteq> et_id row \<or> tv_version v < et_version row)
               (email_template_versions d)"
    by (simp add: list_all_iff)
  with ok fresh show "templates_ok (d\<lparr> email_templates := email_templates d @ [row] \<rparr>)"
    by (auto simp: templates_ok_def row_def list_all_iff)
qed

text \<open>The soft delete changes neither subject, body nor variables: no snapshot, no new
  version.\<close>

lemma delete_template_keeps_versions:
  fixes sv :: services
  assumes ok: "templates_ok d"
    and mem: "t \<in> set (email_templates d)"
    and own: "et_id t = tid" "et_user_id t = u_id u" "et_is_active t"
  defines "t' \<equiv> t\<lparr> et_is_active := False, et_updated_at := current_time sv \<rparr>"
  defines "d' \<equiv> d\<lparr> email_templates := map (\<lambda>r. if r = t then t' else r) (email_templates d) \<rparr>"
  shows "DELETE_template sv u tid d = (d', Reply 200 Deleted)"
    and "templates_ok d'"
proof -
  let ?wh = "\<lambda>r. et_id r = tid \<and> et_user_id r = u_id u \<and> et_is_active r"
  let ?setf = "\<lambda>r. r\<lparr> et_is_active := False, et_updated_at := current_time sv \<rparr>"
  from ok have ids: "distinct (map et_id (email_templates d))"
    and keys: "distinct (map version_key (email_template_versions d))"
    by (simp_all add: templates_ok_def)
  have fu: "fire_update sv ?setf t = ([], t')"
    by (simp add: fire_update_def create_template_version_def t'_def)
  have hits: "filter ?wh (email_templates d) = [t]"
    using filter_unique [OF ids mem, of "\<lambda>r. et_user_id r = u_id u \<and> et_is_active r"] own
    by simp
  have rows: "map (\<lambda>r. if ?wh r then snd (fire_update sv ?setf r) else r) (email_templates d) =
              map (\<lambda>r. if r = t then t' else r) (email_templates d)"
    using map_unique [OF ids mem, of "\<lambda>r. et_user_id r = u_id u \<and> et_is_active r"
                        "\<lambda>r. snd (fire_update sv ?setf r)"] own fu
    by simp
  have upd: "update_email_templates sv ?wh ?setf d = Inr (d', [t'])"
    unfolding update_email_templates_def Let_def hits rows
    using keys fu by (simp add: d'_def)
  show "DELETE_template sv u tid d = (d', Reply 200 Deleted)"
    unfolding DELETE_template_def using upd by simp
  have same: "map et_id (email_templates d') = map et_id (email_templates d)"
  proof -
    have "map et_id (map (\<lambda>r. if r = t then t' else r) (email_templates d)) =
            map et_id (email_templates d)"
      unfolding map_map by (rule map_cong [OF refl]) (simp add: t'_def)
    then show ?thesis by (simp add: d'_def del: map_map)
  qed
  have rows': "\<And>r. r \<in> set (email_templates d') \<Longrightarrow>
                  r \<in> set (email_templates d) \<or> r = t'"
    by (auto simp: d'_def split: if_splits)
  have t'f: "et_id t' = et_id t" "et_version t' = et_version t" "et_subject t' = et_subject t"
    "et_body t' = et_body t" "et_variables t' = et_variables t"
    by (simp_all add: t'_def)
  have versions': "email_template_versions d' = email_template_versions d"
    by (simp add: d'_def)
  show "templates_ok d'"
    unfolding templates_ok_def same versions'
    using ok mem rows' t'f
    by (simp add: templates_ok_def list_all_iff) metis
qed




section \<open>Sending and retrying\<close>

text \<open>The Gmail adapter changes no table but the users.\<close>

lemma refreshAccessToken_tables:
  "refreshAccessToken sv u d = (d', res) \<Longrightarrow> \<exists>us. d' = d\<lparr> users := us \<rparr>"
  by (auto simp: refreshAccessToken_def Let_def split: option.splits if_splits sum.splits
      intro: exI [of _ "users d"])

lemma getValidAccessToken_tables:
  "getValidAccessToken sv u d = (d', res) \<Longrightarrow> \<exists>us. d' = d\<lparr> users := us \<rparr>"
  by (auto simp: getValidAccessToken_def split: option.splits if_splits prod.splits
      dest: refreshAccessToken_tables intro: exI [of _ "users d"])

lemma gmail_sendEmail_tables:
  assumes "gmail_sendEmail sv u rs s h t d = (d', res)"
  shows "\<exists>us. d' = d\<lparr> users := us \<rparr>"
proof -
  obtain d1 r1 where g: "getValidAccessToken sv u d = (d1, r1)" by (cases "getValidAccessToken sv u d")
  from getValidAccessToken_tables [OF g] obtain us where d1: "d1 = d\<lparr> users := us \<rparr>" by blast
  have "d' = d \<or> d' = d1"
    using assms g
    by (auto simp: gmail_sendEmail_def gmail_try_def createTransporter_def
        split: if_splits sum.splits prod.splits)
  with d1 show ?thesis by (auto intro: exI [of _ "users d"])
qed

lemma select_and_send_world:
  assumes "select_and_send sv u rs r w = (w', outcome)"
  shows "sent_emails (db w') = sent_emails (db w) \<and>
         (effects w' = effects w \<or> (\<exists>p. effects w' =
             effects w @ [ProviderSend p rs (r_subject r) (r_body_html r) (Some (r_body_text r))]))"
proof (cases "find (\<lambda>x. u_id x = u_id u) (users (db w))")
  case None
  with assms show ?thesis by (simp add: select_and_send_def)
next
  case (Some userData)
  obtain d' res where g: "gmail_sendEmail sv u rs (r_subject r) (r_body_html r)
      (Some (r_body_text r)) (db w) = (d', res)"
    by (cases "gmail_sendEmail sv u rs (r_subject r) (r_body_html r) (Some (r_body_text r)) (db w)")
  from gmail_sendEmail_tables [OF g] have "sent_emails d' = sent_emails (db w)" by auto
  with assms Some g show ?thesis
    by (auto simp: select_and_send_def split: if_splits)
qed

lemma select_and_send_sends:
  assumes "select_and_send sv u rs r w = (w', outcome)"
  shows "provider_sends w' \<le> provider_sends w + 1"
  using select_and_send_world [OF assms] by (auto simp: provider_sends_def)

lemma updateSentEmailStatus_keys:
  "map se_idempotency_key (sent_emails (updateSentEmailStatus sv i st pm em d)) =
     map se_idempotency_key (sent_emails d)"
  by (simp add: updateSentEmailStatus_def comp_def)

lemma finalize_world:
  assumes "finalize sv msg i outcome w = (w', rep)"
  shows "effects w' = effects w \<and>
         map se_idempotency_key (sent_emails (db w')) =
           map se_idempotency_key (sent_emails (db w))"
  using assms
  by (auto simp: finalize_def updateSentEmailStatus_keys split: sum.splits if_splits)

text \<open>\<^verbatim>\<open>POST /send\<close> once the record is stored: a provider is chosen and the record is
  finalized.\<close>

lemma POST_send_stored:
  assumes "\<not> request_incomplete rq"
    and "filter (\<lambda>r. se_idempotency_key r = finalIdempotencyKey sv rq) (sent_emails (db w)) = []"
    and "filter (\<lambda>t. et_id t = rq_template_id rq \<and> et_user_id t = u_id u \<and> et_is_active t)
           (email_templates (db w)) = template # ts"
    and "filter (\<lambda>n. n_id n = rq_note_id rq \<and> n_user_id n = u_id u) (note_rows (db w)) = n # ns"
    and "renderTemplate (template_engine sv) template n = Inr r"
    and "insert_sent_email
           (new_sent_email sv u (rq_note_id rq) (rq_template_id rq) (rq_recipients rq) template r
              (finalIdempotencyKey sv rq)) (db w) = Inr d2"
  shows "POST_send sv u rq w =
           (case select_and_send sv u (rq_recipients rq) r
                   (w\<lparr> effects := effects w @ [Render template n], db := d2 \<rparr>) of
              (w3, outcome) \<Rightarrow>
                finalize sv ''Failed to send email'' (gen_random_uuid sv) outcome w3)"
  using assms by (simp add: POST_send_def Let_def new_sent_email_def)

lemma POST_send_shape:
  assumes "POST_send sv u rq w = (w', rep)"
  shows "w' = w \<or>
         (\<exists>t n. w' = w\<lparr> effects := effects w @ [Render t n] \<rparr>) \<or>
         (\<exists>t n r row d2 w3 outcome.
            insert_sent_email row (db w) = Inr d2 \<and>
            se_idempotency_key row = finalIdempotencyKey sv rq \<and>
            select_and_send sv u (rq_recipients rq) r
                (w\<lparr> effects := effects w @ [Render t n], db := d2 \<rparr>) = (w3, outcome) \<and>
            finalize sv ''Failed to send email'' (se_id row) outcome w3 = (w', rep))"
proof (cases "request_incomplete rq")
  case True
  with assms show ?thesis by (simp add: POST_send_def)
next
  case complete: False
  show ?thesis
  proof (cases "filter (\<lambda>r. se_idempotency_key r = finalIdempotencyKey sv rq) (sent_emails (db w))")
    case (Cons e es)
    with assms complete show ?thesis by (simp add: POST_send_def Let_def)
  next
    case nokey: Nil
    show ?thesis
    proof (cases "filter (\<lambda>t. et_id t = rq_template_id rq \<and> et_user_id t = u_id u \<and> et_is_active t)
           (email_templates (db w))")
      case Nil
      with assms complete nokey show ?thesis by (simp add: POST_send_def Let_def)
    next
      case tpl: (Cons template ts)
      show ?thesis
      proof (cases "filter (\<lambda>n. n_id n = rq_note_id rq \<and> n_user_id n = u_id u) (note_rows (db w))")
        case Nil
        with assms complete nokey tpl show ?thesis by (simp add: POST_send_def Let_def)
      next
        case nt: (Cons n ns)
        show ?thesis
        proof (cases "renderTemplate (template_engine sv) template n")
          case (Inl ex)
          with assms complete nokey tpl nt
          have "w' = w\<lparr> effects := effects w @ [Render template n] \<rparr>"
            by (simp add: POST_send_def Let_def)
          then show ?thesis by blast
        next
          case rend: (Inr r)
          let ?row = "new_sent_email sv u (rq_note_id rq) (rq_template_id rq) (rq_recipients rq)
                        template r (finalIdempotencyKey sv rq)"
          show ?thesis
          proof (cases "insert_sent_email ?row (db w)")
            case (Inl ex)
            with assms complete nokey tpl nt rend
            have "w' = w\<lparr> effects := effects w @ [Render template n] \<rparr>"
              by (simp add: POST_send_def Let_def)
            then show ?thesis by blast
          next
            case ins: (Inr d2)
            obtain w3 outcome where sel: "select_and_send sv u (rq_recipients rq) r
                (w\<lparr> effects := effects w @ [Render template n], db := d2 \<rparr>) = (w3, outcome)"
              by (cases "select_and_send sv u (rq_recipients rq) r
                (w\<lparr> effects := effects w @ [Render template n], db := d2 \<rparr>)")
            from POST_send_stored [OF complete nokey tpl nt rend ins] sel assms
            have fin: "finalize sv ''Failed to send email'' (gen_random_uuid sv) outcome w3 = (w', rep)"
              by simp
            have "se_id ?row = gen_random_uuid sv"
              and "se_idempotency_key ?row = finalIdempotencyKey sv rq"
              by (simp_all add: new_sent_email_def)
            with ins sel fin show ?thesis by metis
          qed
        qed
      qed
    qed
  qed
qed

lemma insert_sent_email_Inr:
  "insert_sent_email row d = Inr d2 \<Longrightarrow>
     d2 = d\<lparr> sent_emails := sent_emails d @ [row] \<rparr> \<and>
     se_id row \<notin> set (map se_id (sent_emails d)) \<and>
     se_idempotency_key row \<notin> set (map se_idempotency_key (sent_emails d))"
  by (auto simp: insert_sent_email_def split: if_splits)





lemma POST_send_replay:
  assumes "\<not> request_incomplete rq"
    and "filter (\<lambda>r. se_idempotency_key r = finalIdempotencyKey sv rq) (sent_emails (db w))
           = e # es"
  shows "POST_send sv u rq w =
           (w, Reply 200 (Idempotent (se_id e) (se_status e) (se_sent_at e)))"
  using assms by (simp add: POST_send_def Let_def)

lemma POST_send_sends:
  assumes "POST_send sv u rq w = (w', rep)"
  shows "provider_sends w' \<le> provider_sends w + 1"
    and "provider_sends w' \<noteq> provider_sends w \<Longrightarrow>
           finalIdempotencyKey sv rq \<in> set (map se_idempotency_key (sent_emails (db w')))"
proof -
  consider (same) "w' = w"
    | (render) t n where "w' = w\<lparr> effects := effects w @ [Render t n] \<rparr>"
    | (stored) t n r row d2 w3 outcome where
        "insert_sent_email row (db w) = Inr d2"
        "se_idempotency_key row = finalIdempotencyKey sv rq"
        "select_and_send sv u (rq_recipients rq) r
           (w\<lparr> effects := effects w @ [Render t n], db := d2 \<rparr>) = (w3, outcome)"
        "finalize sv ''Failed to send email'' (se_id row) outcome w3 = (w', rep)"
    using POST_send_shape [OF assms] by blast
  then have "provider_sends w' \<le> provider_sends w + 1 \<and>
     (provider_sends w' \<noteq> provider_sends w \<longrightarrow>
        finalIdempotencyKey sv rq \<in> set (map se_idempotency_key (sent_emails (db w'))))"
  proof cases
    case same
    then show ?thesis by simp
  next
    case render
    then show ?thesis by (simp add: provider_sends_def)
  next
    case stored
    from select_and_send_sends [OF stored(3)]
    have "provider_sends w3 \<le> provider_sends w + 1" by (simp add: provider_sends_def)
    moreover from finalize_world [OF stored(4)]
    have "provider_sends w' = provider_sends w3"
      and keys: "map se_idempotency_key (sent_emails (db w')) =
                   map se_idempotency_key (sent_emails (db w3))"
      by (simp_all add: provider_sends_def)
    moreover from select_and_send_world [OF stored(3)]
    have "sent_emails (db w3) = sent_emails d2" by simp
    moreover from insert_sent_email_Inr [OF stored(1)]
    have "sent_emails d2 = sent_emails (db w) @ [row]" by simp
    ultimately show ?thesis using stored(2) by simp
  qed
  then show "provider_sends w' \<le> provider_sends w + 1"
    and "provider_sends w' \<noteq> provider_sends w \<Longrightarrow>
           finalIdempotencyKey sv rq \<in> set (map se_idempotency_key (sent_emails (db w')))"
    by simp_all
qed

lemma finalIdempotencyKey_given:
  "req_idempotency_key rq = Some k \<Longrightarrow> k \<noteq> [] \<Longrightarrow> finalIdempotencyKey sv rq = k"
  by (simp add: finalIdempotencyKey_def)

lemma POST_send_known_key:
  assumes "finalIdempotencyKey sv rq \<in> set (map se_idempotency_key (sent_emails (db w)))"
  shows "fst (POST_send sv u rq w) = w"
proof (cases "request_incomplete rq")
  case True
  then show ?thesis by (simp add: POST_send_def)
next
  case False
  from assms obtain e es where
    "filter (\<lambda>r. se_idempotency_key r = finalIdempotencyKey sv rq) (sent_emails (db w)) = e # es"
    by (cases "filter (\<lambda>r. se_idempotency_key r = finalIdempotencyKey sv rq) (sent_emails (db w))")
       (auto simp: filter_empty_conv)
  from POST_send_replay [OF False this] show ?thesis by simp
qed

lemma two_sends_same_key:
  fixes sv1 sv2 :: services and u1 u2 :: user_row and w :: world
  assumes k1: "req_idempotency_key rq1 = Some k" and k2: "req_idempotency_key rq2 = Some k"
    and k: "k \<noteq> []"
  defines "w1 \<equiv> fst (POST_send sv1 u1 rq1 w)"
  defines "w2 \<equiv> fst (POST_send sv2 u2 rq2 w1)"
  shows "provider_sends w2 \<le> provider_sends w + 1"
    and "provider_sends w1 \<noteq> provider_sends w \<Longrightarrow> w2 = w1"
proof -
  obtain rep1 where r1: "POST_send sv1 u1 rq1 w = (w1, rep1)"
    by (cases "POST_send sv1 u1 rq1 w") (simp add: w1_def)
  obtain rep2 where r2: "POST_send sv2 u2 rq2 w1 = (w2, rep2)"
    by (cases "POST_send sv2 u2 rq2 w1") (simp add: w2_def)
  have key: "finalIdempotencyKey sv1 rq1 = k" "finalIdempotencyKey sv2 rq2 = k"
    using k1 k2 k by (simp_all add: finalIdempotencyKey_given)
  have replay: "w2 = w1" if "provider_sends w1 \<noteq> provider_sends w"
  proof -
    from POST_send_sends(2) [OF r1 that] key
    have "finalIdempotencyKey sv2 rq2 \<in> set (map se_idempotency_key (sent_emails (db w1)))"
      by simp
    from POST_send_known_key [OF this] show ?thesis by (simp add: w2_def)
  qed
  then show "provider_sends w1 \<noteq> provider_sends w \<Longrightarrow> w2 = w1" .
  show "provider_sends w2 \<le> provider_sends w + 1"
  proof (cases "provider_sends w1 = provider_sends w")
    case True
    with POST_send_sends(1) [OF r2] show ?thesis by simp
  next
    case False
    with replay POST_send_sends(1) [OF r1] show ?thesis by simp
  qed
qed

text \<open>
  Claim C1, as the specification states it: two calls with the same key perform exactly
  one provider send.  The example user has authorized no provider: the first call stores
  the record and fails it, the second call replays it, and no adapter has been called.
\<close>

theorem same_key_twice_without_provider_sends_nothing:
  "req_idempotency_key example_request = Some ''key-1'' \<and>
   provider_sends
     (fst (POST_send example_services example_user example_request
        (fst (POST_send example_services example_user example_request example_world)))) = 0 \<and>
   snd (POST_send example_services example_user example_request
        (fst (POST_send example_services example_user example_request example_world))) =
     Reply 200 (Idempotent ''send-1'' failed None)"
  by code_simp

text \<open>
  Claim C1, amended.  A request that passes the test of its fields and whose idempotency
  key (the one given, or the one generated when none is given) is the key of a stored
  record is answered with the identifier, status and sending time of that record, and
  nothing else happens: no rendering, no call of an adapter, no change of any table.  Two
  calls that give the same key perform at most one provider send between them; when the
  first call performs one, the second changes nothing.
\<close>

theorem duplicate_key_is_replayed:
  "(\<not> request_incomplete rq \<and>
    filter (\<lambda>r. se_idempotency_key r = finalIdempotencyKey sv rq) (sent_emails (db w)) = e # es
    \<longrightarrow> POST_send sv u rq w =
          (w, Reply 200 (Idempotent (se_id e) (se_status e) (se_sent_at e)))) \<and>
   (req_idempotency_key rq1 = Some k \<and> req_idempotency_key rq2 = Some k \<and> k \<noteq> [] \<longrightarrow>
      provider_sends (fst (POST_send sv2 u2 rq2 (fst (POST_send sv1 u1 rq1 w0))))
        \<le> provider_sends w0 + 1 \<and>
      (provider_sends (fst (POST_send sv1 u1 rq1 w0)) \<noteq> provider_sends w0 \<longrightarrow>
         fst (POST_send sv2 u2 rq2 (fst (POST_send sv1 u1 rq1 w0))) =
           fst (POST_send sv1 u1 rq1 w0)))"
  using POST_send_replay [of rq sv w e es u]
    two_sends_same_key [where ?rq1.0 = rq1 and k = k and ?rq2.0 = rq2 and ?sv1.0 = sv1
      and ?sv2.0 = sv2 and ?u1.0 = u1 and ?u2.0 = u2 and w = w0]
  by blast

theorem duplicate_key_is_replayed_witness:
  "\<not> request_incomplete example_request \<and>
   req_idempotency_key example_request = Some ''key-1'' \<and>
   provider_sends nylas_world = 0 \<and> provider_sends sent_world = 1 \<and>
   POST_send example_services nylas_user example_request sent_world =
     (sent_world, Reply 200 (Idempotent ''send-1'' sent (Some 1714557600000))) \<and>
   provider_sends
     (fst (POST_send example_services nylas_user example_request
        (fst (POST_send example_services nylas_user example_request nylas_world)))) \<le> 1"
proof -
  have c: "\<not> request_incomplete example_request" by code_simp
  have k: "req_idempotency_key example_request = Some ''key-1''" by code_simp
  have f: "filter (\<lambda>r. se_idempotency_key r = finalIdempotencyKey example_services example_request)
             (sent_emails (db sent_world)) = hd (sent_emails (db sent_world)) # []"
    by code_simp
  have e: "se_id (hd (sent_emails (db sent_world))) = ''send-1''"
    "se_status (hd (sent_emails (db sent_world))) = sent"
    "se_sent_at (hd (sent_emails (db sent_world))) = Some 1714557600000"
    by code_simp+
  have n: "provider_sends nylas_world = 0" "provider_sends sent_world = 1" by code_simp+
  note both = duplicate_key_is_replayed [of example_request example_services sent_world
      "hd (sent_emails (db sent_world))" "[]" nylas_user example_request "''key-1''"
      example_request example_services nylas_user example_services nylas_user nylas_world]
  from both have "POST_send example_services nylas_user example_request sent_world =
     (sent_world, Reply 200 (Idempotent ''send-1'' sent (Some 1714557600000)))"
    using c f e by simp
  moreover from both have "provider_sends
     (fst (POST_send example_services nylas_user example_request
        (fst (POST_send example_services nylas_user example_request nylas_world)))) \<le> 1"
    using k n(1) by simp
  ultimately show ?thesis using c k n by simp
qed



text \<open>What holds of the retry: without a failed record of the user's under the identifier
  nothing happens; with one, the stored recipients, subject and bodies are handed to the
  adapter as they are, nothing is rendered, and the records keep their identifiers, keys
  and rendered content.\<close>

lemma retry_requires_failed_record:
  assumes "filter (\<lambda>r. se_id r = sid \<and> se_user_id r = u_id u \<and> se_status r = failed)
             (sent_emails (db w)) = []"
  shows "POST_retry sv u sid w = (w, Reply 404 (Fail ''Failed email not found''))"
  using assms by (simp add: POST_retry_def)

lemma updateSentEmailStatus_content:
  "map (\<lambda>r. (se_id r, se_idempotency_key r, se_recipients r, se_subject r, se_body_html r,
             se_body_text r, se_template_version r))
       (sent_emails (updateSentEmailStatus sv i st pm em d)) =
   map (\<lambda>r. (se_id r, se_idempotency_key r, se_recipients r, se_subject r, se_body_html r,
             se_body_text r, se_template_version r)) (sent_emails d)"
  by (simp add: updateSentEmailStatus_def comp_def)

lemma finalize_content:
  assumes "finalize sv msg i outcome w = (w', rep)"
  shows "map (\<lambda>r. (se_id r, se_idempotency_key r, se_recipients r, se_subject r, se_body_html r,
             se_body_text r, se_template_version r)) (sent_emails (db w')) =
         map (\<lambda>r. (se_id r, se_idempotency_key r, se_recipients r, se_subject r, se_body_html r,
             se_body_text r, se_template_version r)) (sent_emails (db w))"
  using assms
  by (auto simp: finalize_def updateSentEmailStatus_content split: sum.splits if_splits)

lemma retry_resends_stored_content:
  assumes found: "filter (\<lambda>r. se_id r = sid \<and> se_user_id r = u_id u \<and> se_status r = failed)
             (sent_emails (db w)) = e # es"
    and run: "POST_retry sv u sid w = (w', rep)"
  shows "effects w' = effects w @
           [ProviderSend Gmail (se_recipients e) (se_subject e) (se_body_html e) (se_body_text e)]"
    and "map (\<lambda>r. (se_id r, se_idempotency_key r, se_recipients r, se_subject r, se_body_html r,
             se_body_text r, se_template_version r)) (sent_emails (db w')) =
         map (\<lambda>r. (se_id r, se_idempotency_key r, se_recipients r, se_subject r, se_body_html r,
             se_body_text r, se_template_version r)) (sent_emails (db w))"
proof -
  obtain d' outcome where g: "gmail_sendEmail sv u (se_recipients e) (se_subject e)
      (se_body_html e) (se_body_text e) (db w) = (d', outcome)"
    by (cases "gmail_sendEmail sv u (se_recipients e) (se_subject e) (se_body_html e)
      (se_body_text e) (db w)")
  let ?w1 = "w\<lparr> db := d', effects := effects w @
      [ProviderSend Gmail (se_recipients e) (se_subject e) (se_body_html e) (se_body_text e)] \<rparr>"
  from found run g have fin: "finalize sv ''Failed to retry email'' (se_id e) outcome ?w1 = (w', rep)"
    by (simp add: POST_retry_def)
  from gmail_sendEmail_tables [OF g] have same: "sent_emails d' = sent_emails (db w)" by auto
  from finalize_world [OF fin] show "effects w' = effects w @
      [ProviderSend Gmail (se_recipients e) (se_subject e) (se_body_html e) (se_body_text e)]"
    by simp
  from finalize_content [OF fin] same
  show "map (\<lambda>r. (se_id r, se_idempotency_key r, se_recipients r, se_subject r, se_body_html r,
             se_body_text r, se_template_version r)) (sent_emails (db w')) =
         map (\<lambda>r. (se_id r, se_idempotency_key r, se_recipients r, se_subject r, se_body_html r,
             se_body_text r, se_template_version r)) (sent_emails (db w))"
    by simp
qed

text \<open>
  Claim C4.  The retry is to choose the provider as the send does: Nylas when the user has
  a grant, Gmail otherwise.  It calls the Gmail adapter without looking at the grant.
  Here the user has a Nylas grant and no Gmail token, and a send has failed for the
  network.  The retry hands the stored content to the Gmail adapter, which fails for the
  missing authorization, and the record stays failed; a new send in the same state goes
  through Nylas and succeeds.
\<close>

theorem retry_ignores_nylas_grant:
  "map se_status (sent_emails (db failed_world)) = [failed] \<and>
   snd (POST_retry example_services nylas_user ''send-1'' failed_world) =
     Reply 500 (FailDetails ''Failed to send email''
                  (Some ''User has not authorized Gmail access'')) \<and>
   drop (length (effects failed_world))
     (effects (fst (POST_retry example_services nylas_user ''send-1'' failed_world))) =
     [ProviderSend Gmail [''bob@example.com''] ''Hi !'' ''<p></p>'' (Some [])] \<and>
   map se_status (sent_emails (db (fst
     (POST_retry example_services nylas_user ''send-1'' failed_world)))) = [failed] \<and>
   snd (POST_send second_services nylas_user
          (example_request\<lparr> req_idempotency_key := Some ''key-2'' \<rparr>) failed_world) =
     Reply 200 (SentOk ''send-2'' ''msg-1'')"
  by code_simp

end
